theory Spec2Isabelle
  imports Complex_Main
begin

text \<open>
  A model of the two Streamlit annotation scripts of the repository: \<^verbatim>\<open>apl.py\<close>
  (variant A, a local CSV file and a row index that skips labeled rows) and
  \<^verbatim>\<open>app1.py\<close> (variant B, a CSV file in a remote repository and a list of unlabeled
  rows with a position). One user action runs a script from its first line; what survives
  a run is the store and the session state. A run is a function from the environment, the
  user's input, the store and the session to its outcome, messages, store, session and
  the table it held in memory when it ended.
\<close>

section \<open>Table cells and data frames\<close>

text \<open>
  A cell of the table as pandas holds it after \<^verbatim>\<open>read_csv\<close>: a number, a string, a
  boolean or the missing value NaN. Numbers are rationals (the decimal literals of a CSV
  file); infinities and rounding are outside the model.
\<close>

datatype cell = CNum rat | CStr string | CBool bool | CNaN

text \<open>
  Python's \<^verbatim>\<open>==\<close> on two cells: NaN equals nothing (not even itself), a boolean
  compares as the number 0 or 1, a string equals only the same string.
\<close>

fun py_eq :: "cell \<Rightarrow> cell \<Rightarrow> bool" where
  "py_eq (CNum a) (CNum b) = (a = b)"
| "py_eq (CNum a) (CBool b) = (a = (if b then 1 else 0))"
| "py_eq (CBool a) (CNum b) = ((if a then 1 else 0) = b)"
| "py_eq (CBool a) (CBool b) = (a = b)"
| "py_eq (CStr a) (CStr b) = (a = b)"
| "py_eq _ _ = False"

text \<open>Python's truth value of a cell (\<^verbatim>\<open>bool(x)\<close>): NaN is a non-zero float.\<close>

fun truthy :: "cell \<Rightarrow> bool" where
  "truthy (CNum a) = (a \<noteq> 0)"
| "truthy (CStr s) = (s \<noteq> [])"
| "truthy (CBool b) = b"
| "truthy CNaN = True"

type_synonym row = "string \<Rightarrow> cell"

text \<open>
  A DataFrame with the default positional index: its column labels and its rows in file
  order. A row is read only at the labels in \<open>columns\<close>.
\<close>

record dataframe =
  columns :: "string list"
  rows :: "row list"

text \<open>\<^verbatim>\<open>len(df)\<close>.\<close>

definition len :: "dataframe \<Rightarrow> nat" where
  "len df = length (rows df)"

text \<open>\<^verbatim>\<open>df.iloc[i]\<close> for \<open>i \<ge> 0\<close>: IndexError (None) beyond the last row.\<close>

definition iloc :: "dataframe \<Rightarrow> nat \<Rightarrow> row option" where
  "iloc df i = (if i < len df then Some (rows df ! i) else None)"

text \<open>\<^verbatim>\<open>xs[i]\<close> on a Python list: negative indices count from the end; None is IndexError.\<close>

definition py_index :: "'a list \<Rightarrow> int \<Rightarrow> 'a option" where
  "py_index xs i =
     (if 0 \<le> i \<and> i < int (length xs) then Some (xs ! nat i)
      else if i < 0 \<and> - int (length xs) \<le> i then Some (xs ! nat (int (length xs) + i))
      else None)"

text \<open>
  \<^verbatim>\<open>df.at[i, col] = v\<close>. A label that is not yet a column is added, NaN in the other
  rows; a row label beyond the index is appended as a new row.
\<close>

definition at_set :: "dataframe \<Rightarrow> nat \<Rightarrow> string \<Rightarrow> cell \<Rightarrow> dataframe" where
  "at_set df i col v =
     (let cols = (if col \<in> set (columns df) then columns df else columns df @ [col]);
          rs = (if col \<in> set (columns df) then rows df
                else map (\<lambda>r. r(col := CNaN)) (rows df))
      in if i < length rs
         then \<lparr>columns = cols, rows = rs[i := (rs ! i)(col := v)]\<rparr>
         else \<lparr>columns = cols, rows = rs @ [(\<lambda>c. CNaN)(col := v)]\<rparr>)"

text \<open>
  \<^verbatim>\<open>df.update(other)\<close>: in place, aligned on row position and column label, every
  non-NaN cell of \<open>other\<close> overwrites the cell of \<open>df\<close>.
\<close>

definition df_update :: "dataframe \<Rightarrow> dataframe \<Rightarrow> dataframe" where
  "df_update df other =
     df\<lparr>rows := map (\<lambda>i. (\<lambda>c.
            if c \<in> set (columns df) \<and> c \<in> set (columns other) \<and> i < len other
               \<and> (rows other ! i) c \<noteq> CNaN
            then (rows other ! i) c else (rows df ! i) c))
          [0..<len df]\<rparr>"

text \<open>
  \<^verbatim>\<open>to_csv\<close> followed by \<^verbatim>\<open>read_csv\<close>: what a table reads back as once it has
  been written. An empty text is a missing value. Text that spells a boolean, and a
  boolean itself (printed True or False), reads back as a boolean when every cell of its
  column that is not missing spells one; in any other column a boolean reads back as its
  text. A number reads back as itself and any other text as it is: a table that was read
  from CSV holds text that spells a number only in a column of text, where it stays text.
  A number assigned into a column of text, which would read back as text, is outside the
  model.
\<close>

fun csv_bool :: "cell \<Rightarrow> bool option" where
  "csv_bool (CBool b) = Some b"
| "csv_bool (CStr s) =
     (if s = ''True'' \<or> s = ''TRUE'' \<or> s = ''true'' then Some True
      else if s = ''False'' \<or> s = ''FALSE'' \<or> s = ''false'' then Some False
      else None)"
| "csv_bool c = None"

fun csv_missing :: "cell \<Rightarrow> bool" where
  "csv_missing CNaN = True"
| "csv_missing (CStr s) = (s = [])"
| "csv_missing c = False"

definition bool_column :: "dataframe \<Rightarrow> string \<Rightarrow> bool" where
  "bool_column df col =
     list_all (\<lambda>r. csv_missing (r col) \<or> (case csv_bool (r col) of Some b \<Rightarrow> True | None \<Rightarrow> False))
       (rows df)"

fun read_cell :: "dataframe \<Rightarrow> string \<Rightarrow> cell \<Rightarrow> cell" where
  "read_cell df col (CNum q) = CNum q"
| "read_cell df col CNaN = CNaN"
| "read_cell df col (CBool b) =
     (if bool_column df col then CBool b else CStr (if b then ''True'' else ''False''))"
| "read_cell df col (CStr s) =
     (if s = [] then CNaN
      else (case csv_bool (CStr s) of
              Some b \<Rightarrow> (if bool_column df col then CBool b else CStr s)
            | None \<Rightarrow> CStr s))"

definition csv_round_trip :: "dataframe \<Rightarrow> dataframe" where
  "csv_round_trip df = df\<lparr>rows := map (\<lambda>r. (\<lambda>c. read_cell df c (r c))) (rows df)\<rparr>"

section \<open>The label form, messages and outcomes\<close>

datatype ptype = Simple | Tension
datatype psize = Small | Large
datatype pside = Right_side | Left_side

fun type_str :: "ptype \<Rightarrow> string" where
  "type_str Simple = ''Simple''"
| "type_str Tension = ''Tension''"

fun size_str :: "psize \<Rightarrow> string" where
  "size_str Small = ''Small''"
| "size_str Large = ''Large''"

fun side_str :: "pside \<Rightarrow> string" where
  "side_str Right_side = ''Right''"
| "side_str Left_side = ''Left''"

text \<open>The three select boxes: each returns one of its two options.\<close>

record form =
  pneumothorax_type :: ptype
  pneumothorax_size :: psize
  affected_side :: pside

text \<open>What a run shows to the user (\<^verbatim>\<open>st.success\<close>, \<^verbatim>\<open>st.error\<close>, \<^verbatim>\<open>st.warning\<close>).\<close>

datatype message =
    All_labeled | Image_not_found | Changes_saved | Save_failed
  | Index_error | No_images | Data_mismatch | Load_error

text \<open>
  How a run of the script ends: at its last line, by \<^verbatim>\<open>st.stop()\<close>, by
  \<^verbatim>\<open>st.rerun()\<close>, or with an uncaught exception.
\<close>

datatype outcome = Finished | Stopped | Rerun | Crashed

text \<open>
  The state a run leaves behind: the table in the store, the session state, and the
  DataFrame \<^verbatim>\<open>GT_Pneumothorax\<close> in memory when the run ended.
\<close>

record 's result =
  outcome :: outcome
  messages :: "message list"
  stored :: dataframe
  session :: 's
  frame :: dataframe

datatype 's run = Load_failed | Ran "'s result"

text \<open>
  The environment of one run: whether the first load, the write and a later reload
  succeed, and which image files exist (an existing file is taken to be a readable
  image). The store holds the table as a load returns it: a write stores the table as
  its CSV text reads back (\<open>csv_round_trip\<close>), and no one else writes to the store
  during a run.
\<close>

record env =
  load_ok :: bool
  write_ok :: bool
  reload_ok :: bool
  image_exists :: "string \<Rightarrow> bool"

section \<open>Variant A: apl.py\<close>

record input_A =
  drop_checkbox :: bool
  save_changes :: bool
  form_A :: form
  previous_A :: bool
  next_A :: bool

text \<open>Lines 25-30: the loop that skips labeled rows, from the stored index.\<close>

function skip_labeled :: "dataframe \<Rightarrow> nat \<Rightarrow> nat" where
  "skip_labeled GT i =
     (if i < len GT
      then (if py_eq ((rows GT ! i) ''Label_Flag'') (CNum 1) then skip_labeled GT (i + 1) else i)
      else i)"
  by pat_completeness auto
termination
  by (relation "measure (\<lambda>(GT, i). len GT - i)") auto

declare skip_labeled.simps [simp del]

text \<open>
  Lines 63-85: the Drop and Save Changes buttons. Returns the messages, the file and the
  DataFrame. \<^verbatim>\<open>to_csv\<close> overwrites the file with the table; when it fails the
  file is left as it was.
\<close>

definition save_drop_A ::
  "env \<Rightarrow> input_A \<Rightarrow> dataframe \<Rightarrow> dataframe \<Rightarrow> nat \<Rightarrow> message list \<times> dataframe \<times> dataframe" where
  "save_drop_A e inp file GT idx =
     (if drop_checkbox inp then
        (let GT1 = at_set GT idx ''Label_Flag'' (CNum 1);
             GT2 = at_set GT1 idx ''Drop'' (CBool (drop_checkbox inp))
         in if write_ok e then ([Changes_saved], csv_round_trip GT2, GT2)
            else ([Save_failed], file, GT2))
      else if save_changes inp then
        (let GT1 = at_set GT idx ''Pneumothorax_Type'' (CStr (type_str (pneumothorax_type (form_A inp))));
             GT2 = at_set GT1 idx ''Pneumothorax_Size'' (CStr (size_str (pneumothorax_size (form_A inp))));
             GT3 = at_set GT2 idx ''Affected_Side'' (CStr (side_str (affected_side (form_A inp))));
             GT4 = at_set GT3 idx ''Label_Flag'' (CNum 1);
             GT5 = at_set GT4 idx ''Drop'' (CStr ''False'')
         in if write_ok e then ([Changes_saved], csv_round_trip GT5, GT5)
            else ([Save_failed], file, GT5))
      else ([], file, GT))"

text \<open>Lines 89-92: Previous, then Next, on the index and the table length.\<close>

definition navigate_A :: "input_A \<Rightarrow> nat \<Rightarrow> nat \<Rightarrow> nat" where
  "navigate_A inp n idx =
     (let i1 = (if previous_A inp \<and> idx > 0 then idx - 1 else idx)
      in if next_A inp \<and> int i1 < int n - 1 then i1 + 1 else i1)"

text \<open>
  One run of the script after the table is loaded, from the stored index. Reading a
  column the table lacks is a KeyError, and a file name that is not a string a TypeError:
  both end the run.
\<close>

definition script_A :: "env \<Rightarrow> input_A \<Rightarrow> dataframe \<Rightarrow> dataframe \<Rightarrow> nat \<Rightarrow> nat result" where
  "script_A e inp file GT idx0 =
     (if idx0 < len GT \<and> ''Label_Flag'' \<notin> set (columns GT) then
        \<lparr>outcome = Crashed, messages = [], stored = file, session = idx0, frame = GT\<rparr>
      else
        (let idx = skip_labeled GT idx0 in
         if idx \<ge> len GT then
           \<lparr>outcome = Stopped, messages = [All_labeled], stored = file, session = idx, frame = GT\<rparr>
         else if ''Image_Name'' \<notin> set (columns GT) then
           \<lparr>outcome = Crashed, messages = [], stored = file, session = idx, frame = GT\<rparr>
         else
           (case (rows GT ! idx) ''Image_Name'' of
              CStr name \<Rightarrow>
                (if \<not> image_exists e name then
                   \<lparr>outcome = Stopped, messages = [Image_not_found], stored = file,
                    session = idx, frame = GT\<rparr>
                 else if ''Index'' \<notin> set (columns GT) then
                   \<lparr>outcome = Crashed, messages = [], stored = file, session = idx, frame = GT\<rparr>
                 else
                   (case save_drop_A e inp file GT idx of
                      (msgs, file', GT') \<Rightarrow>
                        \<lparr>outcome = Finished, messages = msgs, stored = file',
                         session = navigate_A inp (len GT') idx, frame = GT'\<rparr>))
            | _ \<Rightarrow> \<lparr>outcome = Crashed, messages = [], stored = file, session = idx, frame = GT\<rparr>)))"

text \<open>Lines 10-22: load the table (fatal on failure) and start the index at 0.\<close>

definition run_A :: "env \<Rightarrow> input_A \<Rightarrow> dataframe \<Rightarrow> nat option \<Rightarrow> nat run" where
  "run_A e inp file s =
     (if load_ok e
      then Ran (script_A e inp file file (case s of None \<Rightarrow> 0 | Some i \<Rightarrow> i))
      else Load_failed)"

section \<open>Variant B: app1.py\<close>

record session_B =
  unlabeled_indices :: "nat list"
  current_pos :: int

record input_B =
  reset :: bool
  form_submit :: bool
  drop_submit :: bool
  form_B :: form
  previous_B :: bool
  next_B :: bool

definition required_columns :: "string list" where
  "required_columns = [''Index'', ''Image_Name'', ''Label_Flag'']"

text \<open>
  Lines 17-33: fetch the table; a failed fetch or a missing required column stops the
  run (None).
\<close>

definition load_data :: "bool \<Rightarrow> dataframe \<Rightarrow> dataframe option" where
  "load_data ok repo =
     (if ok \<and> set required_columns \<subseteq> set (columns repo) then Some repo else None)"

text \<open>
  \<^verbatim>\<open>pd.to_numeric(x, errors="coerce")\<close> on one cell: numbers and booleans are numeric
  already and NaN stays NaN. The library's parser of numeric text is the parameter
  \<open>P\<close>: text it rejects becomes NaN.
\<close>

fun to_numeric :: "(string \<Rightarrow> rat option) \<Rightarrow> cell \<Rightarrow> cell" where
  "to_numeric P (CStr s) = (case P s of Some q \<Rightarrow> CNum q | None \<Rightarrow> CNaN)"
| "to_numeric P c = c"

text \<open>\<^verbatim>\<open>.fillna(0)\<close> on one cell.\<close>

fun fillna0 :: "cell \<Rightarrow> cell" where
  "fillna0 CNaN = CNum 0"
| "fillna0 c = c"

text \<open>
  Lines 39-41 and again 139-141: coerce the Label_Flag column, list the rows whose flag
  equals 0, and put the position at 0 or at the sentinel -1.
\<close>

definition coerce_label_flag :: "(string \<Rightarrow> rat option) \<Rightarrow> dataframe \<Rightarrow> dataframe" where
  "coerce_label_flag P GT =
     GT\<lparr>rows := map (\<lambda>r. r(''Label_Flag'' := fillna0 (to_numeric P (r ''Label_Flag''))))
                    (rows GT)\<rparr>"

definition unlabeled :: "dataframe \<Rightarrow> nat list" where
  "unlabeled GT = filter (\<lambda>i. py_eq ((rows GT ! i) ''Label_Flag'') (CNum 0)) [0..<len GT]"

definition recompute :: "(string \<Rightarrow> rat option) \<Rightarrow> dataframe \<Rightarrow> dataframe \<times> session_B" where
  "recompute P GT =
     (let GT' = coerce_label_flag P GT;
          ul = unlabeled GT'
      in (GT', \<lparr>unlabeled_indices = ul, current_pos = (if ul \<noteq> [] then 0 else - 1)\<rparr>))"

text \<open>
  Lines 49-66: the row under the cursor. IndexError and KeyError are caught and give
  no image; a file name that is not a string is an uncaught TypeError.
\<close>

datatype current = No_image "message list" | Image_row nat row | Type_error

definition get_current_image :: "env \<Rightarrow> dataframe \<Rightarrow> session_B \<Rightarrow> current" where
  "get_current_image e GT s =
     (if current_pos s = - 1 then No_image []
      else
        (case py_index (unlabeled_indices s) (current_pos s) of
           None \<Rightarrow> No_image [Index_error]
         | Some csv_idx \<Rightarrow>
             (case iloc GT csv_idx of
                None \<Rightarrow> No_image [Index_error]
              | Some r \<Rightarrow>
                  (if ''Image_Name'' \<notin> set (columns GT) then No_image [Index_error]
                   else
                     (case r ''Image_Name'' of
                        CStr name \<Rightarrow>
                          (if \<not> image_exists e name then No_image [Image_not_found]
                           else Image_row csv_idx r)
                      | _ \<Rightarrow> Type_error)))))"

text \<open>
  Lines 100-109: the options the select boxes show before the user touches them.
  \<^verbatim>\<open>row.get\<close> falls back to its default only when the column is absent; any cell
  that is not the first option selects the second.
\<close>

definition form_defaults :: "dataframe \<Rightarrow> row \<Rightarrow> form" where
  "form_defaults GT r =
     (let current_type = (if ''Pneumothorax_Type'' \<in> set (columns GT)
                          then r ''Pneumothorax_Type'' else CStr ''Simple'');
          current_size = (if ''Pneumothorax_Size'' \<in> set (columns GT)
                          then r ''Pneumothorax_Size'' else CStr ''Small'');
          current_side = (if ''Affected_Side'' \<in> set (columns GT)
                          then r ''Affected_Side'' else CStr ''Right'')
      in \<lparr>pneumothorax_type = (if py_eq current_type (CStr ''Simple'') then Simple else Tension),
          pneumothorax_size = (if py_eq current_size (CStr ''Small'') then Small else Large),
          affected_side = (if py_eq current_side (CStr ''Right'') then Right_side else Left_side)\<rparr>)"

text \<open>Lines 118-124: any exception of the lookup counts as a mismatch.\<close>

definition verify_before_save :: "dataframe \<Rightarrow> nat \<Rightarrow> cell \<Rightarrow> bool" where
  "verify_before_save GT original_idx original_name =
     (case iloc GT original_idx of
        None \<Rightarrow> False
      | Some current_row \<Rightarrow>
          (if ''Image_Name'' \<in> set (columns GT)
           then py_eq (current_row ''Image_Name'') original_name else False))"

text \<open>
  Lines 126-146: write the table to the store as CSV text, load it again, merge what was
  loaded into the table in memory with \<^verbatim>\<open>update\<close>, and recompute the session. A
  failed write is caught and reported (the function returns False); a failed reload stops
  the run inside \<open>load_data\<close>, after the store has been written. The results carry
  the new store, the table in memory and the new session.
\<close>

datatype update = Update_failed | Update_stopped dataframe | Updated dataframe dataframe session_B

definition update_system :: "(string \<Rightarrow> rat option) \<Rightarrow> env \<Rightarrow> dataframe \<Rightarrow> update" where
  "update_system P e GT =
     (if \<not> write_ok e then Update_failed
      else
        (let repo' = csv_round_trip GT in
         case load_data (reload_ok e) repo' of
           None \<Rightarrow> Update_stopped repo'
         | Some new_data \<Rightarrow>
             (case recompute P (df_update GT new_data) of
                (GT', s') \<Rightarrow> Updated repo' GT' s')))"

text \<open>Lines 148-165: the handler of the Save and Drop buttons of the form.\<close>

definition save_drop_B ::
  "(string \<Rightarrow> rat option) \<Rightarrow> env \<Rightarrow> input_B \<Rightarrow> dataframe \<Rightarrow> dataframe \<Rightarrow> session_B \<Rightarrow> nat \<Rightarrow> cell
     \<Rightarrow> session_B option result" where
  "save_drop_B P e inp repo GT s csv_idx name =
     (if \<not> verify_before_save GT csv_idx name then
        (case load_data (reload_ok e) repo of
           None \<Rightarrow>
             \<lparr>outcome = Stopped, messages = [Data_mismatch, Load_error], stored = repo,
              session = Some s, frame = GT\<rparr>
         | Some df \<Rightarrow>
             \<lparr>outcome = Rerun, messages = [Data_mismatch], stored = repo,
              session = Some s, frame = df\<rparr>)
      else
        (let GT1 = at_set GT csv_idx ''Pneumothorax_Type'' (CStr (type_str (pneumothorax_type (form_B inp))));
             GT2 = at_set GT1 csv_idx ''Pneumothorax_Size'' (CStr (size_str (pneumothorax_size (form_B inp))));
             GT3 = at_set GT2 csv_idx ''Affected_Side'' (CStr (side_str (affected_side (form_B inp))));
             GT4 = at_set GT3 csv_idx ''Label_Flag'' (CNum 1);
             GT5 = at_set GT4 csv_idx ''Drop'' (CStr (if drop_submit inp then ''True'' else ''False''))
         in
           (case update_system P e GT5 of
              Update_failed \<Rightarrow>
                \<lparr>outcome = Rerun, messages = [Save_failed], stored = repo,
                 session = Some s, frame = GT5\<rparr>
            | Update_stopped repo' \<Rightarrow>
                \<lparr>outcome = Stopped, messages = [Load_error], stored = repo',
                 session = Some s, frame = GT5\<rparr>
            | Updated repo' GT' s' \<Rightarrow>
                \<lparr>outcome = Rerun, messages = [Changes_saved], stored = repo',
                 session = Some s', frame = GT'\<rparr>)))"

text \<open>Lines 171-177: Previous and Next on the position in the unlabeled list.\<close>

definition navigate_B :: "input_B \<Rightarrow> session_B \<Rightarrow> outcome \<times> session_B" where
  "navigate_B inp s =
     (if previous_B inp \<and> current_pos s > 0
      then (Rerun, s\<lparr>current_pos := current_pos s - 1\<rparr>)
      else if next_B inp \<and> current_pos s < int (length (unlabeled_indices s)) - 1
      then (Rerun, s\<lparr>current_pos := current_pos s + 1\<rparr>)
      else (Finished, s))"

text \<open>One run of the script after the table is loaded; None is an absent session state.\<close>

definition script_B ::
  "(string \<Rightarrow> rat option) \<Rightarrow> env \<Rightarrow> input_B \<Rightarrow> dataframe \<Rightarrow> dataframe \<Rightarrow> session_B option
     \<Rightarrow> session_B option result" where
  "script_B P e inp repo GT0 ss =
     (case (case ss of None \<Rightarrow> recompute P GT0 | Some s0 \<Rightarrow> (GT0, s0)) of
        (GT, s) \<Rightarrow>
          (if reset inp then
             \<lparr>outcome = Rerun, messages = [], stored = repo, session = None, frame = GT\<rparr>
           else
             (case get_current_image e GT s of
                No_image msgs \<Rightarrow>
                  \<lparr>outcome = Stopped, messages = msgs @ [No_images], stored = repo,
                   session = Some s, frame = GT\<rparr>
              | Type_error \<Rightarrow>
                  \<lparr>outcome = Crashed, messages = [], stored = repo, session = Some s, frame = GT\<rparr>
              | Image_row csv_idx r \<Rightarrow>
                  (if form_submit inp \<or> drop_submit inp
                   then save_drop_B P e inp repo GT s csv_idx (r ''Image_Name'')
                   else
                     (case navigate_B inp s of
                        (out, s') \<Rightarrow>
                          \<lparr>outcome = out, messages = [], stored = repo,
                           session = Some s', frame = GT\<rparr>)))))"

text \<open>Line 35: the table is loaded at the start of every run.\<close>

definition run_B ::
  "(string \<Rightarrow> rat option) \<Rightarrow> env \<Rightarrow> input_B \<Rightarrow> dataframe \<Rightarrow> session_B option \<Rightarrow> session_B option run" where
  "run_B P e inp repo ss =
     (case load_data (load_ok e) repo of
        None \<Rightarrow> Load_failed
      | Some GT0 \<Rightarrow> Ran (script_B P e inp repo GT0 ss))"

section \<open>What the specification asks of the table and the cursor\<close>

text \<open>
  The row a save leaves behind according to the specification: the three label fields
  take the selected values, Label_Flag is 1, Drop is the given cell, and every other
  column keeps its cell.
\<close>

definition saved_row :: "form \<Rightarrow> cell \<Rightarrow> row \<Rightarrow> row" where
  "saved_row f d r =
     r(''Pneumothorax_Type'' := CStr (type_str (pneumothorax_type f)),
       ''Pneumothorax_Size'' := CStr (size_str (pneumothorax_size f)),
       ''Affected_Side'' := CStr (side_str (affected_side f)),
       ''Label_Flag'' := CNum 1,
       ''Drop'' := d)"

text \<open>
  The numeric value of a Label_Flag cell in the specification's words: coerced to a
  number, a missing or invalid value counting as 0.
\<close>

fun spec_flag_value :: "(string \<Rightarrow> rat option) \<Rightarrow> cell \<Rightarrow> rat" where
  "spec_flag_value P (CNum q) = q"
| "spec_flag_value P (CBool b) = (if b then 1 else 0)"
| "spec_flag_value P (CStr s) = (case P s of Some q \<Rightarrow> q | None \<Rightarrow> 0)"
| "spec_flag_value P CNaN = 0"

text \<open>
  Lines 131-136 of app1.py, as one term: the table in memory once it has been written,
  loaded again and merged; and the row such a merge leaves, cell by cell: the cell read
  back from the store where the column exists and that cell is not missing, the cell in
  memory otherwise.
\<close>

definition reloaded :: "dataframe \<Rightarrow> dataframe" where
  "reloaded T = df_update T (csv_round_trip T)"

definition reloaded_row :: "dataframe \<Rightarrow> row \<Rightarrow> row" where
  "reloaded_row T r =
     (\<lambda>c. if c \<in> set (columns T) \<and> read_cell T c (r c) \<noteq> CNaN then read_cell T c (r c) else r c)"

text \<open>The five assignments of lines 157-161 of app1.py, as one term.\<close>

definition labels_B :: "input_B \<Rightarrow> dataframe \<Rightarrow> nat \<Rightarrow> dataframe" where
  "labels_B inp GT csv_idx =
     at_set (at_set (at_set (at_set (at_set GT csv_idx ''Pneumothorax_Type'' (CStr (type_str (pneumothorax_type (form_B inp)))))
        csv_idx ''Pneumothorax_Size'' (CStr (size_str (pneumothorax_size (form_B inp)))))
        csv_idx ''Affected_Side'' (CStr (side_str (affected_side (form_B inp)))))
        csv_idx ''Label_Flag'' (CNum 1))
        csv_idx ''Drop'' (CStr (if drop_submit inp then ''True'' else ''False''))"




section \<open>Example tables and inputs\<close>

definition row_of :: "(string \<times> cell) list \<Rightarrow> row" where
  "row_of kvs = (\<lambda>c. case map_of kvs c of Some v \<Rightarrow> v | None \<Rightarrow> CNaN)"

definition ex_row :: "rat \<Rightarrow> string \<Rightarrow> cell \<Rightarrow> row" where
  "ex_row n name flag = row_of [(''Index'', CNum n), (''Image_Name'', CStr name), (''Label_Flag'', flag)]"

definition ex_unlabeled :: dataframe where
  "ex_unlabeled = \<lparr>columns = [''Index'', ''Image_Name'', ''Label_Flag''],
     rows = [ex_row 0 ''a.png'' (CNum 0), ex_row 1 ''b.png'' (CNum 0), ex_row 2 ''c.png'' (CNum 0)]\<rparr>"

definition ex_mixed :: dataframe where
  "ex_mixed = \<lparr>columns = [''Index'', ''Image_Name'', ''Label_Flag''],
     rows = [ex_row 0 ''a.png'' (CNum 1), ex_row 1 ''b.png'' (CNum 0), ex_row 2 ''c.png'' (CNum 1)]\<rparr>"

definition ex_env :: env where
  "ex_env = \<lparr>load_ok = True, write_ok = True, reload_ok = True, image_exists = (\<lambda>n. True)\<rparr>"

definition ex_form :: form where
  "ex_form = \<lparr>pneumothorax_type = Tension, pneumothorax_size = Large, affected_side = Left_side\<rparr>"

definition ex_idle_A :: input_A where
  "ex_idle_A = \<lparr>drop_checkbox = False, save_changes = False, form_A = ex_form,
                 previous_A = False, next_A = False\<rparr>"

definition ex_idle_B :: input_B where
  "ex_idle_B = \<lparr>reset = False, form_submit = False, drop_submit = False, form_B = ex_form,
                 previous_B = False, next_B = False\<rparr>"

definition ex_parse :: "string \<Rightarrow> rat option" where
  "ex_parse s = (if s = ''0'' then Some 0 else if s = ''1'' then Some 1 else None)"

definition ex_save_A :: input_A where
  "ex_save_A = ex_idle_A\<lparr>save_changes := True\<rparr>"

definition ex_drop_A :: input_A where
  "ex_drop_A = ex_idle_A\<lparr>drop_checkbox := True\<rparr>"

definition ex_save_B :: input_B where
  "ex_save_B = ex_idle_B\<lparr>form_submit := True\<rparr>"


definition ex_session :: session_B where
  "ex_session = \<lparr>unlabeled_indices = [0, 1, 2], current_pos = 0\<rparr>"

definition ex_flags :: dataframe where
  "ex_flags = \<lparr>columns = [''Index'', ''Image_Name'', ''Label_Flag''],
     rows = [ex_row 0 ''a.png'' (CStr ''1''), ex_row 1 ''b.png'' CNaN,
             ex_row 2 ''c.png'' (CStr ''done''), ex_row 3 ''d.png'' (CNum 1)]\<rparr>"


definition ex_previous_A :: input_A where
  "ex_previous_A = ex_idle_A\<lparr>previous_A := True\<rparr>"

definition ex_next_A :: input_A where
  "ex_next_A = ex_idle_A\<lparr>next_A := True\<rparr>"

definition ex_previous_B :: input_B where
  "ex_previous_B = ex_idle_B\<lparr>previous_B := True\<rparr>"

definition ex_next_B :: input_B where
  "ex_next_B = ex_idle_B\<lparr>next_B := True\<rparr>"

definition ex_session_last :: session_B where
  "ex_session_last = \<lparr>unlabeled_indices = [0, 1, 2], current_pos = 2\<rparr>"


definition ex_fresh :: dataframe where
  "ex_fresh = \<lparr>columns = [''Index'', ''Image_Name'', ''Label_Flag'', ''Pneumothorax_Type'',
                           ''Pneumothorax_Size'', ''Affected_Side'', ''Drop''],
     rows = [row_of [(''Index'', CNum 0), (''Image_Name'', CStr ''a.png''), (''Label_Flag'', CNum 0),
                     (''Pneumothorax_Type'', CNaN), (''Pneumothorax_Size'', CNaN),
                     (''Affected_Side'', CNaN), (''Drop'', CNaN)]]\<rparr>"

definition ex_fresh_session :: session_B where
  "ex_fresh_session = \<lparr>unlabeled_indices = [0], current_pos = 0\<rparr>"

definition ex_untouched_drop :: input_B where
  "ex_untouched_drop = \<lparr>reset = False, form_submit = False, drop_submit = True,
     form_B = form_defaults ex_fresh (rows ex_fresh ! 0), previous_B = False, next_B = False\<rparr>"



section \<open>Lemmas on the forward scan\<close>

lemma skip_labeled_ge: "i \<le> skip_labeled GT i"
proof (induction GT i rule: skip_labeled.induct)
  case (1 GT i)
  show ?case
  proof (cases "i < len GT \<and> py_eq ((rows GT ! i) ''Label_Flag'') (CNum 1)")
    case True
    with "1.IH" have "i + 1 \<le> skip_labeled GT (i + 1)" by simp
    moreover from True have "skip_labeled GT i = skip_labeled GT (i + 1)"
      by (subst skip_labeled.simps) simp
    ultimately show ?thesis by simp
  next
    case False
    then have "skip_labeled GT i = i" by (subst skip_labeled.simps) auto
    then show ?thesis by simp
  qed
qed

lemma skip_labeled_le_len: "i \<le> len GT \<Longrightarrow> skip_labeled GT i \<le> len GT"
proof (induction GT i rule: skip_labeled.induct)
  case (1 GT i)
  show ?case
  proof (cases "i < len GT \<and> py_eq ((rows GT ! i) ''Label_Flag'') (CNum 1)")
    case True
    with "1.IH" have "skip_labeled GT (i + 1) \<le> len GT" by simp
    moreover from True have "skip_labeled GT i = skip_labeled GT (i + 1)"
      by (subst skip_labeled.simps) simp
    ultimately show ?thesis by simp
  next
    case False
    then have "skip_labeled GT i = i" by (subst skip_labeled.simps) auto
    with "1.prems" show ?thesis by simp
  qed
qed

lemma skip_labeled_skipped:
  "i \<le> j \<Longrightarrow> j < skip_labeled GT i \<Longrightarrow> py_eq ((rows GT ! j) ''Label_Flag'') (CNum 1)"
proof (induction GT i rule: skip_labeled.induct)
  case (1 GT i)
  show ?case
  proof (cases "i < len GT \<and> py_eq ((rows GT ! i) ''Label_Flag'') (CNum 1)")
    case True
    then have eq: "skip_labeled GT i = skip_labeled GT (i + 1)"
      by (subst skip_labeled.simps) simp
    show ?thesis
    proof (cases "j = i")
      case True
      with \<open>i < len GT \<and> py_eq ((rows GT ! i) ''Label_Flag'') (CNum 1)\<close> show ?thesis by simp
    next
      case False
      with "1.prems" eq have "i + 1 \<le> j" "j < skip_labeled GT (i + 1)" by simp_all
      with "1.IH" True show ?thesis by simp
    qed
  next
    case False
    then have "skip_labeled GT i = i" by (subst skip_labeled.simps) auto
    with "1.prems" show ?thesis by simp
  qed
qed

lemma skip_labeled_stop:
  "skip_labeled GT i < len GT \<Longrightarrow>
     \<not> py_eq ((rows GT ! skip_labeled GT i) ''Label_Flag'') (CNum 1)"
proof (induction GT i rule: skip_labeled.induct)
  case (1 GT i)
  show ?case
  proof (cases "i < len GT \<and> py_eq ((rows GT ! i) ''Label_Flag'') (CNum 1)")
    case True
    then have eq: "skip_labeled GT i = skip_labeled GT (i + 1)"
      by (subst skip_labeled.simps) simp
    with "1.IH" "1.prems" True show ?thesis by simp
  next
    case False
    then have eq: "skip_labeled GT i = i" by (subst skip_labeled.simps) auto
    with "1.prems" False show ?thesis by simp
  qed
qed

lemma skip_labeled_fix: "skip_labeled GT (skip_labeled GT i) = skip_labeled GT i"
proof (cases "skip_labeled GT i < len GT")
  case True
  from skip_labeled_stop [OF True] show ?thesis by (subst skip_labeled.simps) simp
next
  case False
  then show ?thesis by (subst skip_labeled.simps) simp
qed

section \<open>Lemmas on cell assignment and the save handlers\<close>

lemma at_set_len: "i < len df \<Longrightarrow> len (at_set df i col v) = len df"
  by (simp add: at_set_def len_def Let_def)

lemma at_set_columns: "set (columns (at_set df i col v)) = insert col (set (columns df))"
  by (auto simp add: at_set_def Let_def)

lemma at_set_row: "i < len df \<Longrightarrow> rows (at_set df i col v) ! i = (rows df ! i)(col := v)"
  by (auto simp add: at_set_def len_def Let_def)

lemma at_set_other_row:
  "i < len df \<Longrightarrow> j < len df \<Longrightarrow> j \<noteq> i \<Longrightarrow>
     rows (at_set df i col v) ! j =
       (if col \<in> set (columns df) then rows df ! j else (rows df ! j)(col := CNaN))"
  by (simp add: at_set_def len_def Let_def)

lemma save_A_frame:
  assumes "idx < len GT" "save_changes inp" "\<not> drop_checkbox inp"
  shows "save_drop_A e inp file GT idx = (msgs, file', GT') \<Longrightarrow>
     len GT' = len GT \<and> rows GT' ! idx = saved_row (form_A inp) (CStr ''False'') (rows GT ! idx)
     \<and> (if write_ok e then msgs = [Changes_saved] \<and> file' = csv_round_trip GT'
        else msgs = [Save_failed] \<and> file' = file)"
  using assms
  by (auto simp add: save_drop_A_def Let_def at_set_len at_set_row saved_row_def split: if_splits)

lemma drop_A_frame:
  assumes "idx < len GT" "drop_checkbox inp"
  shows "save_drop_A e inp file GT idx = (msgs, file', GT') \<Longrightarrow>
     len GT' = len GT \<and> rows GT' ! idx = (rows GT ! idx)(''Label_Flag'' := CNum 1, ''Drop'' := CBool True)
     \<and> (if write_ok e then msgs = [Changes_saved] \<and> file' = csv_round_trip GT'
        else msgs = [Save_failed] \<and> file' = file)"
  using assms
  by (auto simp add: save_drop_A_def Let_def at_set_len at_set_row split: if_splits)

lemma drop_A_fields:
  assumes "idx < len GT" "drop_checkbox inp" "save_drop_A e inp file GT idx = (msgs, file', GT')"
  shows "(rows GT' ! idx) ''Label_Flag'' = CNum 1"
    and "truthy ((rows GT' ! idx) ''Drop'')"
    and "(rows GT' ! idx) ''Pneumothorax_Type'' = (rows GT ! idx) ''Pneumothorax_Type''"
    and "(rows GT' ! idx) ''Pneumothorax_Size'' = (rows GT ! idx) ''Pneumothorax_Size''"
    and "(rows GT' ! idx) ''Affected_Side'' = (rows GT ! idx) ''Affected_Side''"
  using drop_A_frame [OF assms] by simp_all

lemma csv_round_trip_len: "len (csv_round_trip T) = len T"
  by (simp add: csv_round_trip_def len_def)

lemma csv_round_trip_columns: "columns (csv_round_trip T) = columns T"
  by (simp add: csv_round_trip_def)

lemma csv_round_trip_row:
  "i < len T \<Longrightarrow> rows (csv_round_trip T) ! i = (\<lambda>c. read_cell T c ((rows T ! i) c))"
  by (simp add: csv_round_trip_def len_def)

lemma reloaded_len: "len (reloaded T) = len T"
  by (simp add: reloaded_def df_update_def len_def)

lemma reloaded_columns: "columns (reloaded T) = columns T"
  by (simp add: reloaded_def df_update_def)

lemma reloaded_nth: "i < len T \<Longrightarrow> rows (reloaded T) ! i = reloaded_row T (rows T ! i)"
proof -
  assume lt: "i < len T"
  then have "rows (reloaded T) ! i =
      (\<lambda>c. if c \<in> set (columns T) \<and> c \<in> set (columns (csv_round_trip T))
               \<and> i < len (csv_round_trip T) \<and> (rows (csv_round_trip T) ! i) c \<noteq> CNaN
            then (rows (csv_round_trip T) ! i) c else (rows T ! i) c)"
    by (simp add: reloaded_def df_update_def len_def cong: if_cong)
  with lt show ?thesis
    by (simp add: reloaded_row_def csv_round_trip_len csv_round_trip_columns
        csv_round_trip_row cong: if_cong)
qed

lemma reloaded_row_num: "r c = CNum q \<Longrightarrow> reloaded_row T r c = CNum q"
  by (simp add: reloaded_row_def)

lemma read_cell_text:
  "s \<noteq> [] \<Longrightarrow> csv_bool (CStr s) = None \<Longrightarrow> read_cell T c (CStr s) = CStr s"
  by simp

lemma reloaded_row_text:
  "r c = CStr s \<Longrightarrow> s \<noteq> [] \<Longrightarrow> csv_bool (CStr s) = None \<Longrightarrow> reloaded_row T r c = CStr s"
  by (simp add: reloaded_row_def)

lemma reloaded_row_same:
  "read_cell T c (r c) = r c \<or> read_cell T c (r c) = CNaN \<Longrightarrow> reloaded_row T r c = r c"
  by (auto simp add: reloaded_row_def)

lemma reloaded_row_False:
  "r c = CStr ''False'' \<Longrightarrow> c \<in> set (columns T) \<Longrightarrow>
     reloaded_row T r c = (if bool_column T c then CBool False else CStr ''False'')"
  by (simp add: reloaded_row_def)

lemma reloaded_row_True:
  "r c = CStr ''True'' \<Longrightarrow> c \<in> set (columns T) \<Longrightarrow>
     reloaded_row T r c = (if bool_column T c then CBool True else CStr ''True'')"
  by (simp add: reloaded_row_def)

lemma df_update_self: "df_update df df = df"
proof -
  have "map (\<lambda>i. (\<lambda>c. (rows df ! i) c)) [0..<length (rows df)] = rows df"
    by (simp add: map_nth)
  then show ?thesis by (simp add: df_update_def len_def cong: if_cong)
qed

section \<open>Lemmas on the recomputation of variant B\<close>

lemma coerced_eq_0: "py_eq (fillna0 (to_numeric P c)) (CNum 0) \<longleftrightarrow> spec_flag_value P c = 0"
  by (cases c) (auto split: option.splits)

lemma spec_flag_value_coerced:
  "spec_flag_value P (fillna0 (to_numeric P c)) = spec_flag_value P c"
  by (cases c) (auto split: option.splits)

lemma coerce_len: "len (coerce_label_flag P GT) = len GT"
  by (simp add: coerce_label_flag_def len_def)

lemma coerce_columns: "columns (coerce_label_flag P GT) = columns GT"
  by (simp add: coerce_label_flag_def)

lemma coerce_row:
  "i < len GT \<Longrightarrow> rows (coerce_label_flag P GT) ! i =
     (rows GT ! i)(''Label_Flag'' := fillna0 (to_numeric P ((rows GT ! i) ''Label_Flag'')))"
  by (simp add: coerce_label_flag_def len_def)

lemma unlabeled_coerce:
  "unlabeled (coerce_label_flag P GT) =
     filter (\<lambda>i. spec_flag_value P ((rows GT ! i) ''Label_Flag'') = 0) [0..<len GT]"
  unfolding unlabeled_def coerce_len
  by (rule filter_cong) (simp_all add: coerce_row coerced_eq_0)

lemma recompute_session:
  "recompute P GT = (GT', s) \<Longrightarrow>
     GT' = coerce_label_flag P GT \<and>
     unlabeled_indices s = filter (\<lambda>i. spec_flag_value P ((rows GT ! i) ''Label_Flag'') = 0) [0..<len GT] \<and>
     current_pos s = (if unlabeled_indices s = [] then - 1 else 0)"
  by (auto simp add: recompute_def Let_def unlabeled_coerce)

lemma verify_in_range:
  "verify_before_save GT i name \<Longrightarrow> i < len GT \<and> ''Image_Name'' \<in> set (columns GT)"
  by (auto simp add: verify_before_save_def iloc_def split: option.splits if_splits)

lemma labels_B_facts:
  assumes "i < len GT"
  shows "len (labels_B inp GT i) = len GT"
    and "rows (labels_B inp GT i) ! i =
           saved_row (form_B inp) (CStr (if drop_submit inp then ''True'' else ''False'')) (rows GT ! i)"
    and "set (columns GT) \<subseteq> set (columns (labels_B inp GT i))"
  using assms
  by (auto simp add: labels_B_def at_set_len at_set_row at_set_columns saved_row_def)

lemma labels_B_columns:
  "set (columns (labels_B inp GT i)) =
     set (columns GT) \<union> {''Pneumothorax_Type'', ''Pneumothorax_Size'', ''Affected_Side'',
                              ''Label_Flag'', ''Drop''}"
  by (auto simp add: labels_B_def at_set_columns)

lemma labels_B_flag_and_drop:
  assumes "i < len GT"
  shows "(rows (labels_B inp GT i) ! i) ''Label_Flag'' = CNum 1"
    and "truthy ((rows (labels_B inp GT i) ! i) ''Drop'')"
  using labels_B_facts(2) [OF assms, of inp] by (simp_all add: saved_row_def)

lemma save_drop_B_unfold:
  "save_drop_B P e inp repo GT s i name =
     (if \<not> verify_before_save GT i name then
        (case load_data (reload_ok e) repo of
           None \<Rightarrow>
             \<lparr>outcome = Stopped, messages = [Data_mismatch, Load_error], stored = repo,
              session = Some s, frame = GT\<rparr>
         | Some df \<Rightarrow>
             \<lparr>outcome = Rerun, messages = [Data_mismatch], stored = repo,
              session = Some s, frame = df\<rparr>)
      else
           (case update_system P e (labels_B inp GT i) of
              Update_failed \<Rightarrow>
                \<lparr>outcome = Rerun, messages = [Save_failed], stored = repo,
                 session = Some s, frame = labels_B inp GT i\<rparr>
            | Update_stopped repo' \<Rightarrow>
                \<lparr>outcome = Stopped, messages = [Load_error], stored = repo',
                 session = Some s, frame = labels_B inp GT i\<rparr>
            | Updated repo' GT' s' \<Rightarrow>
                \<lparr>outcome = Rerun, messages = [Changes_saved], stored = repo',
                 session = Some s', frame = GT'\<rparr>))"
  unfolding save_drop_B_def labels_B_def Let_def by (rule refl)

lemma update_system_cases:
  "update_system P e GT =
     (if \<not> write_ok e then Update_failed
      else if \<not> (reload_ok e \<and> set required_columns \<subseteq> set (columns GT))
      then Update_stopped (csv_round_trip GT)
      else Updated (csv_round_trip GT) (coerce_label_flag P (reloaded GT))
             (snd (recompute P (reloaded GT))))"
  by (auto simp add: update_system_def load_data_def reloaded_def recompute_def Let_def
      csv_round_trip_columns split: option.splits prod.splits)

lemma save_drop_B_success:
  assumes "Changes_saved \<in> set (messages (save_drop_B P e inp repo GT s i name))"
  shows "verify_before_save GT i name \<and> write_ok e \<and>
         save_drop_B P e inp repo GT s i name =
           \<lparr>outcome = Rerun, messages = [Changes_saved],
            stored = csv_round_trip (labels_B inp GT i),
            session = Some (snd (recompute P (reloaded (labels_B inp GT i)))),
            frame = coerce_label_flag P (reloaded (labels_B inp GT i))\<rparr>"
  using assms
  by (auto simp add: save_drop_B_unfold update_system_cases split: if_splits option.splits)

lemmas ex_defs = row_of_def ex_row_def ex_unlabeled_def ex_mixed_def ex_env_def ex_form_def
  ex_idle_A_def ex_idle_B_def ex_parse_def

section \<open>Lemmas on the runs and on the example data\<close>

lemma script_A_saved:
  assumes "Changes_saved \<in> set (messages (script_A e inp file GT i0))"
  shows "skip_labeled GT i0 < len GT \<and> write_ok e \<and> (drop_checkbox inp \<or> save_changes inp) \<and>
         script_A e inp file GT i0 =
           (case save_drop_A e inp file GT (skip_labeled GT i0) of
              (msgs, file', GT') \<Rightarrow>
                \<lparr>outcome = Finished, messages = msgs, stored = file',
                 session = navigate_A inp (len GT') (skip_labeled GT i0), frame = GT'\<rparr>)"
  using assms
  by (auto simp add: script_A_def Let_def save_drop_A_def split: if_splits cell.splits)

lemma saved_row_flag: "saved_row f d r ''Label_Flag'' = CNum 1"
  by (simp add: saved_row_def)

lemma ex_script_A_save:
  "messages (script_A ex_env ex_save_A ex_unlabeled ex_unlabeled 0) = [Changes_saved]"
  by (simp add: script_A_def save_drop_A_def skip_labeled.simps Let_def ex_save_A_def ex_defs len_def)

lemma ex_verify: "verify_before_save ex_unlabeled 0 (CStr ''a.png'')"
  by (simp add: verify_before_save_def iloc_def len_def ex_defs)

lemma ex_save_B_msgs:
  "messages (save_drop_B ex_parse ex_env ex_save_B ex_unlabeled ex_unlabeled ex_session 0 (CStr ''a.png''))
     = [Changes_saved]"
  by (simp add: save_drop_B_unfold update_system_cases ex_verify)
     (simp add: ex_env_def labels_B_def at_set_columns required_columns_def ex_unlabeled_def)

lemma sorted_unlabeled_filter: "sorted_wrt (<) (filter Q [0..<n])"
  by (rule sorted_wrt_filter) simp

lemma script_B_idle_start:
  assumes "\<not> reset inp" "\<not> form_submit inp" "\<not> drop_submit inp" "\<not> previous_B inp" "\<not> next_B inp"
  shows "session (script_B P e inp repo GT0 None) = Some (snd (recompute P GT0))"
  using assms
  by (auto simp add: script_B_def navigate_B_def split: prod.splits current.splits)

lemma ex_recompute_flags:
  "snd (recompute ex_parse ex_flags) = \<lparr>unlabeled_indices = [1, 2], current_pos = 0\<rparr>"
  by (simp add: recompute_def coerce_label_flag_def unlabeled_def len_def Let_def ex_flags_def
      ex_row_def row_of_def ex_parse_def)

lemma ex_update_flags:
  "update_system ex_parse ex_env ex_flags
     = Updated (csv_round_trip ex_flags) (coerce_label_flag ex_parse (reloaded ex_flags))
         (snd (recompute ex_parse (reloaded ex_flags)))"
  by (simp add: update_system_cases ex_env_def ex_flags_def required_columns_def)

lemma ex_reloaded_flags:
  "snd (recompute ex_parse (reloaded ex_flags)) = \<lparr>unlabeled_indices = [1, 2], current_pos = 0\<rparr>"
  by (simp add: recompute_def coerce_label_flag_def unlabeled_def len_def Let_def reloaded_def
      df_update_def csv_round_trip_def ex_flags_def ex_row_def row_of_def ex_parse_def)

lemma recompute_snd:
  "unlabeled_indices (snd (recompute P GT))
     = filter (\<lambda>i. spec_flag_value P ((rows GT ! i) ''Label_Flag'') = 0) [0..<len GT]
   \<and> current_pos (snd (recompute P GT))
     = (if unlabeled_indices (snd (recompute P GT)) = [] then - 1 else 0)"
  using recompute_session [of P GT "fst (recompute P GT)" "snd (recompute P GT)"] by simp

lemma ex_save_B_result:
  "save_drop_B ex_parse ex_env ex_save_B ex_unlabeled ex_unlabeled ex_session 0 (CStr ''a.png'')
     = \<lparr>outcome = Rerun, messages = [Changes_saved],
        stored = csv_round_trip (labels_B ex_save_B ex_unlabeled 0),
        session = Some (snd (recompute ex_parse (reloaded (labels_B ex_save_B ex_unlabeled 0)))),
        frame = coerce_label_flag ex_parse (reloaded (labels_B ex_save_B ex_unlabeled 0))\<rparr>"
  using save_drop_B_success [of ex_parse ex_env ex_save_B ex_unlabeled ex_unlabeled ex_session 0
      "CStr ''a.png''"] ex_save_B_msgs
  by simp

lemma ex_save_B_session:
  "snd (recompute ex_parse (reloaded (labels_B ex_save_B ex_unlabeled 0)))
     = \<lparr>unlabeled_indices = [1, 2], current_pos = 0\<rparr>"
  by (simp add: recompute_def coerce_label_flag_def unlabeled_def len_def Let_def labels_B_def
      reloaded_def df_update_def csv_round_trip_def at_set_def ex_unlabeled_def ex_row_def
      row_of_def ex_parse_def)



lemma script_A_no_button:
  assumes "\<not> drop_checkbox inp" "\<not> save_changes inp"
  shows "stored (script_A e inp file GT i0) = file \<and> frame (script_A e inp file GT i0) = GT
     \<and> (session (script_A e inp file GT i0) = skip_labeled GT i0
        \<or> session (script_A e inp file GT i0) = navigate_A inp (len GT) (skip_labeled GT i0)
        \<or> (session (script_A e inp file GT i0) = i0 \<and> i0 < len GT
            \<and> ''Label_Flag'' \<notin> set (columns GT)))"
  using assms
  by (auto simp add: script_A_def Let_def save_drop_A_def split: if_splits cell.splits)

lemma skip_labeled_0: "skip_labeled GT i0 = 0 \<Longrightarrow> i0 = 0"
  using skip_labeled_ge [of i0 GT] by simp

lemma script_B_no_button:
  assumes "\<not> reset inp" "\<not> form_submit inp" "\<not> drop_submit inp"
  shows "stored (script_B P e inp repo GT (Some s)) = repo
     \<and> frame (script_B P e inp repo GT (Some s)) = GT
     \<and> (session (script_B P e inp repo GT (Some s)) = Some s
        \<or> session (script_B P e inp repo GT (Some s)) = Some (snd (navigate_B inp s)))"
  using assms
  by (auto simp add: script_B_def split: prod.splits current.splits)









lemma ex_fresh_defaults:
  "form_defaults ex_fresh (rows ex_fresh ! 0)
     = \<lparr>pneumothorax_type = Tension, pneumothorax_size = Large, affected_side = Left_side\<rparr>"
  by (simp add: form_defaults_def ex_fresh_def row_of_def)

lemma ex_fresh_verify: "verify_before_save ex_fresh 0 (CStr ''a.png'')"
  by (simp add: verify_before_save_def iloc_def len_def ex_fresh_def row_of_def)

lemma ex_fresh_script_B:
  "script_B P ex_env ex_untouched_drop ex_fresh ex_fresh (Some ex_fresh_session)
     = save_drop_B P ex_env ex_untouched_drop ex_fresh ex_fresh ex_fresh_session 0 (CStr ''a.png'')"
  by (simp add: script_B_def get_current_image_def py_index_def iloc_def len_def
      ex_env_def ex_fresh_def ex_fresh_session_def row_of_def ex_untouched_drop_def)

lemma ex_fresh_saved:
  "save_drop_B P ex_env ex_untouched_drop ex_fresh ex_fresh ex_fresh_session 0 (CStr ''a.png'')
     = \<lparr>outcome = Rerun, messages = [Changes_saved],
        stored = csv_round_trip (labels_B ex_untouched_drop ex_fresh 0),
        session = Some (snd (recompute P (reloaded (labels_B ex_untouched_drop ex_fresh 0)))),
        frame = coerce_label_flag P (reloaded (labels_B ex_untouched_drop ex_fresh 0))\<rparr>"
proof -
  have "set required_columns \<subseteq> set (columns (labels_B ex_untouched_drop ex_fresh 0))"
    by (simp add: labels_B_def at_set_columns required_columns_def ex_fresh_def)
  then show ?thesis
    by (simp add: save_drop_B_unfold update_system_cases ex_fresh_verify ex_env_def)
qed

lemma ex_script_A_drop:
  "script_A ex_env ex_drop_A ex_unlabeled ex_unlabeled 0
     = \<lparr>outcome = Finished, messages = [Changes_saved],
        stored = csv_round_trip
          (at_set (at_set ex_unlabeled 0 ''Label_Flag'' (CNum 1)) 0 ''Drop'' (CBool True)),
        session = 0,
        frame = at_set (at_set ex_unlabeled 0 ''Label_Flag'' (CNum 1)) 0 ''Drop'' (CBool True)\<rparr>"
proof -
  have s: "skip_labeled ex_unlabeled 0 = 0"
    by (simp add: skip_labeled.simps ex_unlabeled_def ex_row_def row_of_def len_def)
  have l: "len ex_unlabeled = 3" by (simp add: len_def ex_unlabeled_def)
  have n: "(rows ex_unlabeled ! 0) ''Image_Name'' = CStr ''a.png''"
    by (simp add: ex_unlabeled_def ex_row_def row_of_def)
  have c: "columns ex_unlabeled = [''Index'', ''Image_Name'', ''Label_Flag'']"
    by (simp add: ex_unlabeled_def)
  have e: "write_ok ex_env" "image_exists ex_env ''a.png''" by (simp_all add: ex_env_def)
  have i: "drop_checkbox ex_drop_A" "\<not> previous_A ex_drop_A" "\<not> next_A ex_drop_A"
    by (simp_all add: ex_drop_A_def ex_idle_A_def)
  have len': "len (at_set (at_set ex_unlabeled 0 ''Label_Flag'' (CNum 1)) 0 ''Drop'' (CBool True)) = 3"
    using l by (simp add: at_set_len)
  show ?thesis
    using s l n c e i len'
    by (simp add: script_A_def save_drop_A_def navigate_A_def Let_def)
qed




lemma saved_row_cells:
  "saved_row f d r ''Pneumothorax_Type'' = CStr (type_str (pneumothorax_type f))"
  "saved_row f d r ''Pneumothorax_Size'' = CStr (size_str (pneumothorax_size f))"
  "saved_row f d r ''Affected_Side'' = CStr (side_str (affected_side f))"
  "saved_row f d r ''Drop'' = d"
  by (simp_all add: saved_row_def)

lemma saved_row_other:
  "c \<notin> {''Pneumothorax_Type'', ''Pneumothorax_Size'', ''Affected_Side'', ''Label_Flag'', ''Drop''}
     \<Longrightarrow> saved_row f d r c = r c"
  by (simp add: saved_row_def)

lemma option_text:
  "type_str t \<noteq> [] \<and> csv_bool (CStr (type_str t)) = None"
  "size_str z \<noteq> [] \<and> csv_bool (CStr (size_str z)) = None"
  "side_str d \<noteq> [] \<and> csv_bool (CStr (side_str d)) = None"
  by (cases t, simp_all) (cases z, simp_all, cases d, simp_all)

lemma read_cell_options:
  "read_cell T c (CStr (type_str t)) = CStr (type_str t)"
  "read_cell T c (CStr (size_str z)) = CStr (size_str z)"
  "read_cell T c (CStr (side_str d)) = CStr (side_str d)"
  by (cases t, simp_all) (cases z, simp_all, cases d, simp_all)

lemma reloaded_saved_row:
  "reloaded_row T (saved_row f d r) ''Pneumothorax_Type'' = CStr (type_str (pneumothorax_type f))"
  "reloaded_row T (saved_row f d r) ''Pneumothorax_Size'' = CStr (size_str (pneumothorax_size f))"
  "reloaded_row T (saved_row f d r) ''Affected_Side'' = CStr (side_str (affected_side f))"
  "reloaded_row T (saved_row f d r) ''Label_Flag'' = CNum 1"
  by (simp_all add: reloaded_row_def saved_row_cells saved_row_flag read_cell_options
      del: read_cell.simps(4))

lemma reloaded_saved_row_Drop:
  "''Drop'' \<in> set (columns T) \<Longrightarrow>
     reloaded_row T (saved_row f (CStr ''False'') r) ''Drop''
       = (if bool_column T ''Drop'' then CBool False else CStr ''False'')"
  by (simp add: reloaded_row_def saved_row_cells)

lemma save_B_frame_row:
  assumes ok: "Changes_saved \<in> set (messages (save_drop_B P e inp repo GT s i name))"
  shows "i < len GT"
    and "stored (save_drop_B P e inp repo GT s i name) = csv_round_trip (labels_B inp GT i)"
    and "rows (frame (save_drop_B P e inp repo GT s i name)) ! i
           = reloaded_row (labels_B inp GT i) (rows (labels_B inp GT i) ! i)"
proof -
  let ?L = "labels_B inp GT i"
  from save_drop_B_success [OF ok] have v: "verify_before_save GT i name"
    and r: "save_drop_B P e inp repo GT s i name =
           \<lparr>outcome = Rerun, messages = [Changes_saved], stored = csv_round_trip ?L,
            session = Some (snd (recompute P (reloaded ?L))),
            frame = coerce_label_flag P (reloaded ?L)\<rparr>"
    by simp_all
  from verify_in_range [OF v] show lt: "i < len GT" by simp
  from r show "stored (save_drop_B P e inp repo GT s i name) = csv_round_trip ?L" by simp
  from labels_B_facts [OF lt, of inp]
  have l: "len ?L = len GT" and flag: "(rows ?L ! i) ''Label_Flag'' = CNum 1"
    by (simp_all add: saved_row_flag)
  from lt l have lt': "i < len ?L" by simp
  have "reloaded_row ?L (rows ?L ! i) ''Label_Flag'' = CNum 1"
    using flag by (simp add: reloaded_row_def)
  then have "rows (coerce_label_flag P (reloaded ?L)) ! i = reloaded_row ?L (rows ?L ! i)"
    using lt' by (simp add: coerce_row reloaded_len reloaded_nth fun_upd_idem)
  with r show "rows (frame (save_drop_B P e inp repo GT s i name)) ! i
           = reloaded_row ?L (rows ?L ! i)"
    by simp
qed

lemma ex_save_B_bool_column: "bool_column (labels_B ex_save_B ex_unlabeled 0) ''Drop''"
  by (simp add: bool_column_def labels_B_def at_set_def ex_unlabeled_def ex_row_def row_of_def)









section \<open>The claims\<close>

text \<open>
  C1, as the code has it. A save that reports success assigns exactly five fields of the
  row under the cursor: Pneumothorax_Type, Pneumothorax_Size and Affected_Side take the
  selected values, Label_Flag becomes 1 and Drop the string "False"; every other column of
  that row keeps its cell (\<open>saved_row\<close>). In variant A that is the row in memory when
  the run ends, and the file holds the table as its CSV text reads back. In variant B it
  is the row of the table handed to the store (\<open>labels_B\<close>); the row in memory when
  the run ends is that row merged with what was loaded back from the store
  (\<open>reloaded_row\<close>): the three label fields hold the selected strings and Label_Flag
  is 1, Drop is the boolean False when the Drop column reads back as booleans and the
  string "False" otherwise, and any other column keeps its cell if that cell reads back as
  itself or as a missing value.
\<close>

theorem C1_save_writes_five_fields:
  "(save_changes inpA \<and> \<not> drop_checkbox inpA
      \<and> Changes_saved \<in> set (messages (script_A e inpA file GT i0))
    \<longrightarrow> skip_labeled GT i0 < len GT
        \<and> rows (frame (script_A e inpA file GT i0)) ! skip_labeled GT i0
            = saved_row (form_A inpA) (CStr ''False'') (rows GT ! skip_labeled GT i0)
        \<and> stored (script_A e inpA file GT i0)
            = csv_round_trip (frame (script_A e inpA file GT i0)))
   \<and> (form_submit inpB \<and> \<not> drop_submit inpB
      \<and> Changes_saved \<in> set (messages (save_drop_B P e' inpB repo GT' s i name))
    \<longrightarrow> i < len GT'
        \<and> rows (labels_B inpB GT' i) ! i
            = saved_row (form_B inpB) (CStr ''False'') (rows GT' ! i)
        \<and> stored (save_drop_B P e' inpB repo GT' s i name)
            = csv_round_trip (labels_B inpB GT' i)
        \<and> rows (frame (save_drop_B P e' inpB repo GT' s i name)) ! i
            = reloaded_row (labels_B inpB GT' i)
                (saved_row (form_B inpB) (CStr ''False'') (rows GT' ! i))
        \<and> (rows (frame (save_drop_B P e' inpB repo GT' s i name)) ! i) ''Pneumothorax_Type''
            = CStr (type_str (pneumothorax_type (form_B inpB)))
        \<and> (rows (frame (save_drop_B P e' inpB repo GT' s i name)) ! i) ''Pneumothorax_Size''
            = CStr (size_str (pneumothorax_size (form_B inpB)))
        \<and> (rows (frame (save_drop_B P e' inpB repo GT' s i name)) ! i) ''Affected_Side''
            = CStr (side_str (affected_side (form_B inpB)))
        \<and> (rows (frame (save_drop_B P e' inpB repo GT' s i name)) ! i) ''Label_Flag'' = CNum 1
        \<and> (rows (frame (save_drop_B P e' inpB repo GT' s i name)) ! i) ''Drop''
            = (if bool_column (labels_B inpB GT' i) ''Drop'' then CBool False else CStr ''False'')
        \<and> (\<forall>c. c \<notin> {''Pneumothorax_Type'', ''Pneumothorax_Size'', ''Affected_Side'',
                      ''Label_Flag'', ''Drop''}
               \<and> (read_cell (labels_B inpB GT' i) c ((rows GT' ! i) c) = (rows GT' ! i) c
                    \<or> read_cell (labels_B inpB GT' i) c ((rows GT' ! i) c) = CNaN)
             \<longrightarrow> (rows (frame (save_drop_B P e' inpB repo GT' s i name)) ! i) c
                   = (rows GT' ! i) c))"
proof (intro conjI impI allI)
  assume a: "save_changes inpA \<and> \<not> drop_checkbox inpA
      \<and> Changes_saved \<in> set (messages (script_A e inpA file GT i0))"
  let ?idx = "skip_labeled GT i0"
  from a have ok: "Changes_saved \<in> set (messages (script_A e inpA file GT i0))" by simp
  from script_A_saved [OF ok]
  have lt: "?idx < len GT" and w: "write_ok e"
    and r: "script_A e inpA file GT i0 =
       (case save_drop_A e inpA file GT ?idx of
          (msgs, file', GT') \<Rightarrow>
            \<lparr>outcome = Finished, messages = msgs, stored = file',
             session = navigate_A inpA (len GT') ?idx, frame = GT'\<rparr>)"
    by simp_all
  obtain msgs file' G where sd: "save_drop_A e inpA file GT ?idx = (msgs, file', G)"
    by (cases "save_drop_A e inpA file GT ?idx") auto
  from save_A_frame [OF lt _ _ sd] a w
  have "rows G ! ?idx = saved_row (form_A inpA) (CStr ''False'') (rows GT ! ?idx)"
    "file' = csv_round_trip G"
    by simp_all
  with r sd lt
  show "skip_labeled GT i0 < len GT"
    "rows (frame (script_A e inpA file GT i0)) ! skip_labeled GT i0
            = saved_row (form_A inpA) (CStr ''False'') (rows GT ! skip_labeled GT i0)"
    "stored (script_A e inpA file GT i0) = csv_round_trip (frame (script_A e inpA file GT i0))"
    by simp_all
next
  fix c
  assume b: "form_submit inpB \<and> \<not> drop_submit inpB
      \<and> Changes_saved \<in> set (messages (save_drop_B P e' inpB repo GT' s i name))"
  let ?L = "labels_B inpB GT' i"
  let ?S = "saved_row (form_B inpB) (CStr ''False'') (rows GT' ! i)"
  let ?F = "rows (frame (save_drop_B P e' inpB repo GT' s i name)) ! i"
  from b have ok: "Changes_saved \<in> set (messages (save_drop_B P e' inpB repo GT' s i name))"
    by simp
  note f = save_B_frame_row [OF ok]
  from f(1) show lt: "i < len GT'" .
  from labels_B_facts(2) [OF lt, of inpB] b show row: "rows ?L ! i = ?S" by simp
  from f(2) show "stored (save_drop_B P e' inpB repo GT' s i name) = csv_round_trip ?L" .
  from f(3) row show fr: "?F = reloaded_row ?L ?S" by simp
  from fr show "?F ''Pneumothorax_Type'' = CStr (type_str (pneumothorax_type (form_B inpB)))"
    by (simp add: reloaded_saved_row)
  from fr show "?F ''Pneumothorax_Size'' = CStr (size_str (pneumothorax_size (form_B inpB)))"
    by (simp add: reloaded_saved_row)
  from fr show "?F ''Affected_Side'' = CStr (side_str (affected_side (form_B inpB)))"
    by (simp add: reloaded_saved_row)
  from fr show "?F ''Label_Flag'' = CNum 1"
    by (simp add: reloaded_saved_row)
  have "''Drop'' \<in> set (columns ?L)" by (simp add: labels_B_columns)
  with fr show "?F ''Drop'' = (if bool_column ?L ''Drop'' then CBool False else CStr ''False'')"
    by (simp add: reloaded_saved_row_Drop)
  assume o: "c \<notin> {''Pneumothorax_Type'', ''Pneumothorax_Size'', ''Affected_Side'',
                      ''Label_Flag'', ''Drop''}
               \<and> (read_cell ?L c ((rows GT' ! i) c) = (rows GT' ! i) c
                    \<or> read_cell ?L c ((rows GT' ! i) c) = CNaN)"
  then have same: "?S c = (rows GT' ! i) c" using saved_row_other [of c] by simp
  with o have "reloaded_row ?L ?S c = ?S c" by (intro reloaded_row_same) simp
  with fr same show "?F c = (rows GT' ! i) c" by simp
qed

theorem C1_save_writes_five_fields_witness:
  "save_changes ex_save_A \<and> \<not> drop_checkbox ex_save_A
   \<and> Changes_saved \<in> set (messages (script_A ex_env ex_save_A ex_unlabeled ex_unlabeled 0))
   \<and> rows (frame (script_A ex_env ex_save_A ex_unlabeled ex_unlabeled 0)) ! skip_labeled ex_unlabeled 0
       = saved_row ex_form (CStr ''False'') (rows ex_unlabeled ! skip_labeled ex_unlabeled 0)
   \<and> form_submit ex_save_B \<and> \<not> drop_submit ex_save_B
   \<and> Changes_saved \<in> set (messages
        (save_drop_B ex_parse ex_env ex_save_B ex_unlabeled ex_unlabeled ex_session 0 (CStr ''a.png'')))
   \<and> rows (labels_B ex_save_B ex_unlabeled 0) ! 0
       = saved_row ex_form (CStr ''False'') (rows ex_unlabeled ! 0)
   \<and> (rows (frame
        (save_drop_B ex_parse ex_env ex_save_B ex_unlabeled ex_unlabeled ex_session 0 (CStr ''a.png''))) ! 0)
        ''Pneumothorax_Type'' = CStr ''Tension''
   \<and> (rows (frame
        (save_drop_B ex_parse ex_env ex_save_B ex_unlabeled ex_unlabeled ex_session 0 (CStr ''a.png''))) ! 0)
        ''Label_Flag'' = CNum 1"
proof -
  have a: "save_changes ex_save_A \<and> \<not> drop_checkbox ex_save_A
      \<and> Changes_saved \<in> set (messages (script_A ex_env ex_save_A ex_unlabeled ex_unlabeled 0))"
    by (simp add: ex_script_A_save) (simp add: ex_save_A_def ex_idle_A_def)
  have b: "form_submit ex_save_B \<and> \<not> drop_submit ex_save_B
      \<and> Changes_saved \<in> set (messages
        (save_drop_B ex_parse ex_env ex_save_B ex_unlabeled ex_unlabeled ex_session 0 (CStr ''a.png'')))"
    by (simp add: ex_save_B_msgs) (simp add: ex_save_B_def ex_idle_B_def)
  have f: "form_A ex_save_A = ex_form" "form_B ex_save_B = ex_form"
    "type_str (pneumothorax_type ex_form) = ''Tension''"
    by (simp_all add: ex_save_A_def ex_idle_A_def ex_save_B_def ex_idle_B_def ex_form_def)
  note t = C1_save_writes_five_fields [of ex_save_A ex_env ex_unlabeled ex_unlabeled 0 ex_save_B
      ex_parse ex_env ex_unlabeled ex_unlabeled ex_session 0 "CStr ''a.png''"]
  from t a have "rows (frame (script_A ex_env ex_save_A ex_unlabeled ex_unlabeled 0))
        ! skip_labeled ex_unlabeled 0
       = saved_row (form_A ex_save_A) (CStr ''False'')
           (rows ex_unlabeled ! skip_labeled ex_unlabeled 0)"
    by blast
  then have r1: "rows (frame (script_A ex_env ex_save_A ex_unlabeled ex_unlabeled 0))
        ! skip_labeled ex_unlabeled 0
       = saved_row ex_form (CStr ''False'') (rows ex_unlabeled ! skip_labeled ex_unlabeled 0)"
    by (simp only: f)
  from t b have "rows (labels_B ex_save_B ex_unlabeled 0) ! 0
       = saved_row (form_B ex_save_B) (CStr ''False'') (rows ex_unlabeled ! 0)"
    by blast
  then have r2: "rows (labels_B ex_save_B ex_unlabeled 0) ! 0
       = saved_row ex_form (CStr ''False'') (rows ex_unlabeled ! 0)"
    by (simp only: f)
  from t b have "(rows (frame
        (save_drop_B ex_parse ex_env ex_save_B ex_unlabeled ex_unlabeled ex_session 0 (CStr ''a.png''))) ! 0)
        ''Pneumothorax_Type'' = CStr (type_str (pneumothorax_type (form_B ex_save_B)))"
    by blast
  then have r3: "(rows (frame
        (save_drop_B ex_parse ex_env ex_save_B ex_unlabeled ex_unlabeled ex_session 0 (CStr ''a.png''))) ! 0)
        ''Pneumothorax_Type'' = CStr ''Tension''"
    by (simp only: f)
  from t b have r4: "(rows (frame
        (save_drop_B ex_parse ex_env ex_save_B ex_unlabeled ex_unlabeled ex_session 0 (CStr ''a.png''))) ! 0)
        ''Label_Flag'' = CNum 1"
    by blast
  from a r1 b r2 r3 r4 show ?thesis by (intro conjI) (elim conjE, assumption)+
qed

text \<open>
  C1 as stated fails in variant B. The table has three unlabeled rows and no Drop column;
  row 0 is saved. The handler assigns the string "False", the table is written and loaded
  again, the Drop column reads back as booleans, and the merge puts the boolean False into
  the row in memory: the row is not the one with the string "False".
\<close>

theorem C1_reload_turns_Drop_into_boolean:
  "form_submit ex_save_B \<and> \<not> drop_submit ex_save_B
   \<and> messages (save_drop_B ex_parse ex_env ex_save_B ex_unlabeled ex_unlabeled ex_session 0
        (CStr ''a.png'')) = [Changes_saved]
   \<and> (rows (frame (save_drop_B ex_parse ex_env ex_save_B ex_unlabeled ex_unlabeled ex_session 0
        (CStr ''a.png''))) ! 0) ''Drop'' = CBool False
   \<and> rows (frame (save_drop_B ex_parse ex_env ex_save_B ex_unlabeled ex_unlabeled ex_session 0
        (CStr ''a.png''))) ! 0
       \<noteq> saved_row ex_form (CStr ''False'') (rows ex_unlabeled ! 0)"
proof -
  let ?r = "save_drop_B ex_parse ex_env ex_save_B ex_unlabeled ex_unlabeled ex_session 0
        (CStr ''a.png'')"
  have i: "form_submit ex_save_B" "\<not> drop_submit ex_save_B"
    by (simp_all add: ex_save_B_def ex_idle_B_def)
  have ok: "Changes_saved \<in> set (messages ?r)" by (simp add: ex_save_B_msgs)
  have lt: "0 < len ex_unlabeled" by (simp add: len_def ex_unlabeled_def)
  from labels_B_facts(2) [OF lt, of ex_save_B] i
  have "(rows (labels_B ex_save_B ex_unlabeled 0) ! 0) ''Drop'' = CStr ''False''"
    by (simp add: saved_row_cells)
  moreover have "''Drop'' \<in> set (columns (labels_B ex_save_B ex_unlabeled 0))"
    by (simp add: labels_B_columns)
  ultimately have d: "(rows (frame ?r) ! 0) ''Drop'' = CBool False"
    using save_B_frame_row(3) [OF ok] ex_save_B_bool_column
    by (simp add: reloaded_row_False)
  have "saved_row ex_form (CStr ''False'') (rows ex_unlabeled ! 0) ''Drop'' = CStr ''False''"
    by (simp add: saved_row_cells)
  with d have "rows (frame ?r) ! 0 \<noteq> saved_row ex_form (CStr ''False'') (rows ex_unlabeled ! 0)"
    by auto
  with i d show ?thesis by (simp add: ex_save_B_msgs)
qed

text \<open>
  C2 at a failing input of variant B. The table has one unlabeled row whose three label
  fields are NaN; the form shows its defaults for that row and the user presses Drop
  without touching it. The handler shared by Save and Drop writes the form into the row:
  the fields become Tension, Large and Left, in memory and in the store. Variant A's Drop
  handler leaves them alone (\<open>drop_A_frame\<close>).
\<close>

theorem C2_drop_overwrites_labels_in_B:
  "(rows ex_fresh ! 0) ''Pneumothorax_Type'' = CNaN
   \<and> (rows ex_fresh ! 0) ''Pneumothorax_Size'' = CNaN
   \<and> (rows ex_fresh ! 0) ''Affected_Side'' = CNaN
   \<and> form_B ex_untouched_drop = form_defaults ex_fresh (rows ex_fresh ! 0)
   \<and> messages (script_B ex_parse ex_env ex_untouched_drop ex_fresh ex_fresh (Some ex_fresh_session))
       = [Changes_saved]
   \<and> (rows (frame (script_B ex_parse ex_env ex_untouched_drop ex_fresh ex_fresh (Some ex_fresh_session))) ! 0)
        ''Pneumothorax_Type'' = CStr ''Tension''
   \<and> (rows (frame (script_B ex_parse ex_env ex_untouched_drop ex_fresh ex_fresh (Some ex_fresh_session))) ! 0)
        ''Pneumothorax_Size'' = CStr ''Large''
   \<and> (rows (frame (script_B ex_parse ex_env ex_untouched_drop ex_fresh ex_fresh (Some ex_fresh_session))) ! 0)
        ''Affected_Side'' = CStr ''Left''
   \<and> (rows (stored (script_B ex_parse ex_env ex_untouched_drop ex_fresh ex_fresh (Some ex_fresh_session))) ! 0)
        ''Pneumothorax_Type'' = CStr ''Tension''"
proof -
  have lt: "0 < len ex_fresh" by (simp add: len_def ex_fresh_def)
  have f: "form_B ex_untouched_drop
      = \<lparr>pneumothorax_type = Tension, pneumothorax_size = Large, affected_side = Left_side\<rparr>"
    by (simp add: ex_untouched_drop_def ex_fresh_defaults)
  have old: "(rows ex_fresh ! 0) ''Pneumothorax_Type'' = CNaN"
    "(rows ex_fresh ! 0) ''Pneumothorax_Size'' = CNaN"
    "(rows ex_fresh ! 0) ''Affected_Side'' = CNaN"
    by (simp_all add: ex_fresh_def row_of_def)
  have d: "form_B ex_untouched_drop = form_defaults ex_fresh (rows ex_fresh ! 0)"
    by (simp add: ex_untouched_drop_def)
  let ?L = "labels_B ex_untouched_drop ex_fresh 0"
  let ?P = ex_parse
  from labels_B_facts [OF lt, of ex_untouched_drop] f
  have l: "len ?L = len ex_fresh"
    and row: "rows ?L ! 0 = saved_row \<lparr>pneumothorax_type = Tension, pneumothorax_size = Large,
        affected_side = Left_side\<rparr> (CStr (if drop_submit ex_untouched_drop then ''True'' else ''False''))
        (rows ex_fresh ! 0)"
    by simp_all
  from lt l have lt': "0 < len ?L" by simp
  from row have new: "(rows ?L ! 0) ''Pneumothorax_Type'' = CStr ''Tension''"
    "(rows ?L ! 0) ''Pneumothorax_Size'' = CStr ''Large''"
    "(rows ?L ! 0) ''Affected_Side'' = CStr ''Left''"
    by (simp_all add: saved_row_def)
  have rnew: "(rows (reloaded ?L) ! 0) ''Pneumothorax_Type'' = CStr ''Tension''"
    "(rows (reloaded ?L) ! 0) ''Pneumothorax_Size'' = CStr ''Large''"
    "(rows (reloaded ?L) ! 0) ''Affected_Side'' = CStr ''Left''"
    using reloaded_nth [OF lt'] new by (simp_all add: reloaded_row_text)
  from lt' have "rows (coerce_label_flag ?P (reloaded ?L)) ! 0
      = (rows (reloaded ?L) ! 0)(''Label_Flag'' :=
          fillna0 (to_numeric ?P ((rows (reloaded ?L) ! 0) ''Label_Flag'')))"
    by (simp add: coerce_row reloaded_len)
  with rnew have cnew: "(rows (coerce_label_flag ?P (reloaded ?L)) ! 0) ''Pneumothorax_Type'' = CStr ''Tension''"
    "(rows (coerce_label_flag ?P (reloaded ?L)) ! 0) ''Pneumothorax_Size'' = CStr ''Large''"
    "(rows (coerce_label_flag ?P (reloaded ?L)) ! 0) ''Affected_Side'' = CStr ''Left''"
    by simp_all
  have snew: "(rows (csv_round_trip ?L) ! 0) ''Pneumothorax_Type'' = CStr ''Tension''"
    using lt' new(1) by (simp add: csv_round_trip_row)
  from old d cnew snew show ?thesis
    by (simp add: ex_fresh_script_B ex_fresh_saved)
qed

text \<open>
  C3. Whenever variant B computes its unlabeled list (at session start, and in
  \<open>update_system\<close> after a save) the list is exactly the row indices, in row order,
  whose Label_Flag has the numeric value 0 once missing and invalid values count as 0;
  the position is 0 if the list is non-empty and the sentinel -1 if it is empty.
\<close>

theorem C3_unlabeled_list_recomputed:
  "(recompute P GT = (GT', s) \<longrightarrow>
      unlabeled_indices s
        = filter (\<lambda>i. spec_flag_value P ((rows GT ! i) ''Label_Flag'') = 0) [0..<len GT]
      \<and> sorted_wrt (<) (unlabeled_indices s)
      \<and> current_pos s = (if unlabeled_indices s = [] then - 1 else 0))
   \<and> (\<not> reset inp \<and> \<not> form_submit inp \<and> \<not> drop_submit inp \<and> \<not> previous_B inp \<and> \<not> next_B inp
      \<longrightarrow> session (script_B P e inp repo GT None) = Some (snd (recompute P GT)))
   \<and> (update_system P e GT = Updated repo' GT'' s' \<longrightarrow>
      unlabeled_indices s'
        = filter (\<lambda>i. spec_flag_value P ((rows GT'' ! i) ''Label_Flag'') = 0) [0..<len GT'']
      \<and> sorted_wrt (<) (unlabeled_indices s')
      \<and> current_pos s' = (if unlabeled_indices s' = [] then - 1 else 0))"
proof (intro conjI impI)
  assume r: "recompute P GT = (GT', s)"
  from recompute_session [OF r]
  show "unlabeled_indices s
        = filter (\<lambda>i. spec_flag_value P ((rows GT ! i) ''Label_Flag'') = 0) [0..<len GT]"
    and "current_pos s = (if unlabeled_indices s = [] then - 1 else 0)"
    by simp_all
  then show "sorted_wrt (<) (unlabeled_indices s)"
    by (simp add: sorted_unlabeled_filter)
next
  assume "\<not> reset inp \<and> \<not> form_submit inp \<and> \<not> drop_submit inp \<and> \<not> previous_B inp \<and> \<not> next_B inp"
  then show "session (script_B P e inp repo GT None) = Some (snd (recompute P GT))"
    by (simp add: script_B_idle_start)
next
  assume u: "update_system P e GT = Updated repo' GT'' s'"
  let ?T = "reloaded GT"
  from u have g: "GT'' = coerce_label_flag P ?T" and s: "s' = snd (recompute P ?T)"
    by (auto simp add: update_system_cases split: if_splits)
  from recompute_snd [of P ?T] s
  have l: "unlabeled_indices s'
        = filter (\<lambda>i. spec_flag_value P ((rows ?T ! i) ''Label_Flag'') = 0) [0..<len ?T]"
    and p: "current_pos s' = (if unlabeled_indices s' = [] then - 1 else 0)"
    by simp_all
  have "filter (\<lambda>i. spec_flag_value P ((rows GT'' ! i) ''Label_Flag'') = 0) [0..<len GT'']
        = filter (\<lambda>i. spec_flag_value P ((rows ?T ! i) ''Label_Flag'') = 0) [0..<len ?T]"
    unfolding g coerce_len
    by (rule filter_cong) (simp_all add: coerce_row spec_flag_value_coerced)
  with l show "unlabeled_indices s'
        = filter (\<lambda>i. spec_flag_value P ((rows GT'' ! i) ''Label_Flag'') = 0) [0..<len GT'']"
    by simp
  from l show "sorted_wrt (<) (unlabeled_indices s')" by (simp add: sorted_unlabeled_filter)
  from p show "current_pos s' = (if unlabeled_indices s' = [] then - 1 else 0)" .
qed

theorem C3_unlabeled_list_recomputed_witness:
  "recompute ex_parse ex_flags
     = (coerce_label_flag ex_parse ex_flags, \<lparr>unlabeled_indices = [1, 2], current_pos = 0\<rparr>)
   \<and> [1, 2] = filter (\<lambda>i. spec_flag_value ex_parse ((rows ex_flags ! i) ''Label_Flag'') = 0)
                 [0..<len ex_flags]
   \<and> \<not> reset ex_idle_B \<and> \<not> form_submit ex_idle_B \<and> \<not> drop_submit ex_idle_B
   \<and> \<not> previous_B ex_idle_B \<and> \<not> next_B ex_idle_B
   \<and> session (script_B ex_parse ex_env ex_idle_B ex_flags ex_flags None)
       = Some \<lparr>unlabeled_indices = [1, 2], current_pos = 0\<rparr>
   \<and> update_system ex_parse ex_env ex_flags
       = Updated (csv_round_trip ex_flags) (coerce_label_flag ex_parse (reloaded ex_flags))
           \<lparr>unlabeled_indices = [1, 2], current_pos = 0\<rparr>
   \<and> [1, 2] = filter (\<lambda>i. spec_flag_value ex_parse
                   ((rows (coerce_label_flag ex_parse (reloaded ex_flags)) ! i) ''Label_Flag'') = 0)
                 [0..<len (coerce_label_flag ex_parse (reloaded ex_flags))]"
proof -
  have r: "recompute ex_parse ex_flags
     = (coerce_label_flag ex_parse ex_flags, \<lparr>unlabeled_indices = [1, 2], current_pos = 0\<rparr>)"
    using ex_recompute_flags by (simp add: recompute_def Let_def)
  have idle: "\<not> reset ex_idle_B \<and> \<not> form_submit ex_idle_B \<and> \<not> drop_submit ex_idle_B
      \<and> \<not> previous_B ex_idle_B \<and> \<not> next_B ex_idle_B"
    by (simp add: ex_idle_B_def)
  have u: "update_system ex_parse ex_env ex_flags
       = Updated (csv_round_trip ex_flags) (coerce_label_flag ex_parse (reloaded ex_flags))
           \<lparr>unlabeled_indices = [1, 2], current_pos = 0\<rparr>"
    using ex_update_flags ex_reloaded_flags by simp
  note c = C3_unlabeled_list_recomputed [of ex_parse ex_flags "coerce_label_flag ex_parse ex_flags"
      "\<lparr>unlabeled_indices = [1, 2], current_pos = 0\<rparr>" ex_idle_B ex_env ex_flags "csv_round_trip ex_flags"
      "coerce_label_flag ex_parse (reloaded ex_flags)"
      "\<lparr>unlabeled_indices = [1, 2], current_pos = 0\<rparr>"]
  from c r have "unlabeled_indices \<lparr>unlabeled_indices = [1, 2], current_pos = 0\<rparr>
      = filter (\<lambda>i. spec_flag_value ex_parse ((rows ex_flags ! i) ''Label_Flag'') = 0)
          [0..<len ex_flags]"
    by blast
  then have l1: "[1, 2] = filter (\<lambda>i. spec_flag_value ex_parse ((rows ex_flags ! i) ''Label_Flag'') = 0)
                 [0..<len ex_flags]"
    by (simp only: session_B.select_convs)
  from c u have "unlabeled_indices \<lparr>unlabeled_indices = [1, 2], current_pos = 0\<rparr>
      = filter (\<lambda>i. spec_flag_value ex_parse
                   ((rows (coerce_label_flag ex_parse (reloaded ex_flags)) ! i) ''Label_Flag'') = 0)
                 [0..<len (coerce_label_flag ex_parse (reloaded ex_flags))]"
    by blast
  then have l2: "[1, 2] = filter (\<lambda>i. spec_flag_value ex_parse
                   ((rows (coerce_label_flag ex_parse (reloaded ex_flags)) ! i) ''Label_Flag'') = 0)
                 [0..<len (coerce_label_flag ex_parse (reloaded ex_flags))]"
    by (simp only: session_B.select_convs)
  from c idle have "session (script_B ex_parse ex_env ex_idle_B ex_flags ex_flags None)
       = Some (snd (recompute ex_parse ex_flags))"
    by blast
  with r have s: "session (script_B ex_parse ex_env ex_idle_B ex_flags ex_flags None)
       = Some \<lparr>unlabeled_indices = [1, 2], current_pos = 0\<rparr>"
    by (simp only: snd_conv)
  from r l1 idle s u l2 show ?thesis by (intro conjI) (elim conjE, assumption)+
qed

text \<open>
  C4. From any starting index, the forward scan of variant A moves only over rows whose
  Label_Flag equals 1 and never stops on such a row: it stops at the first row at or
  after the start whose flag is not 1. If every remaining row has flag 1 and the start
  lies within the table, the index ends at the table length and the run reports that all
  images are labeled.
\<close>

theorem C4_forward_scan:
  "i \<le> skip_labeled GT i
   \<and> (\<forall>j. i \<le> j \<and> j < skip_labeled GT i \<longrightarrow> py_eq ((rows GT ! j) ''Label_Flag'') (CNum 1))
   \<and> (skip_labeled GT i < len GT \<longrightarrow>
        \<not> py_eq ((rows GT ! skip_labeled GT i) ''Label_Flag'') (CNum 1))
   \<and> (i \<le> len GT \<and> (\<forall>j. i \<le> j \<and> j < len GT \<longrightarrow> py_eq ((rows GT ! j) ''Label_Flag'') (CNum 1))
        \<longrightarrow> skip_labeled GT i = len GT)
   \<and> (i \<le> len GT \<and> ''Label_Flag'' \<in> set (columns GT)
        \<and> (\<forall>j. i \<le> j \<and> j < len GT \<longrightarrow> py_eq ((rows GT ! j) ''Label_Flag'') (CNum 1))
        \<longrightarrow> script_A e inp file GT i =
              \<lparr>outcome = Stopped, messages = [All_labeled], stored = file,
               session = len GT, frame = GT\<rparr>)"
proof -
  have stop: "skip_labeled GT i = len GT"
    if "i \<le> len GT" and all: "\<forall>j. i \<le> j \<and> j < len GT \<longrightarrow> py_eq ((rows GT ! j) ''Label_Flag'') (CNum 1)"
  proof (rule ccontr)
    assume ne: "skip_labeled GT i \<noteq> len GT"
    from that(1) have "skip_labeled GT i \<le> len GT" by (rule skip_labeled_le_len)
    with ne have lt: "skip_labeled GT i < len GT" by simp
    from skip_labeled_stop [OF lt] all skip_labeled_ge [of i GT] lt show False by blast
  qed
  have "script_A e inp file GT i =
          \<lparr>outcome = Stopped, messages = [All_labeled], stored = file, session = len GT, frame = GT\<rparr>"
    if "i \<le> len GT" "''Label_Flag'' \<in> set (columns GT)"
       "\<forall>j. i \<le> j \<and> j < len GT \<longrightarrow> py_eq ((rows GT ! j) ''Label_Flag'') (CNum 1)"
    using stop [OF that(1) that(3)] that(2) by (simp add: script_A_def)
  with stop skip_labeled_ge [of i GT] skip_labeled_skipped [of i _ GT] skip_labeled_stop [of GT i]
  show ?thesis by blast
qed

theorem C4_forward_scan_witness:
  "skip_labeled ex_mixed 0 = 1
   \<and> \<not> py_eq ((rows ex_mixed ! skip_labeled ex_mixed 0) ''Label_Flag'') (CNum 1)
   \<and> py_eq ((rows ex_mixed ! 2) ''Label_Flag'') (CNum 1)
   \<and> (2::nat) \<le> len ex_mixed \<and> ''Label_Flag'' \<in> set (columns ex_mixed)
   \<and> skip_labeled ex_mixed 2 = len ex_mixed
   \<and> script_A ex_env ex_idle_A ex_mixed ex_mixed 2 =
        \<lparr>outcome = Stopped, messages = [All_labeled], stored = ex_mixed,
         session = len ex_mixed, frame = ex_mixed\<rparr>"
proof -
  have scan: "skip_labeled ex_mixed 0 = 1" "skip_labeled ex_mixed 0 < len ex_mixed"
    by (simp_all add: skip_labeled.simps ex_defs len_def)
  have h: "(2::nat) \<le> len ex_mixed" "''Label_Flag'' \<in> set (columns ex_mixed)"
    "\<forall>j. 2 \<le> j \<and> j < len ex_mixed \<longrightarrow> py_eq ((rows ex_mixed ! j) ''Label_Flag'') (CNum 1)"
    by (auto simp add: ex_defs len_def less_Suc_eq numeral_3_eq_3)
  from h(3) h(1) have "py_eq ((rows ex_mixed ! 2) ''Label_Flag'') (CNum 1)"
    by (simp add: ex_defs len_def)
  with scan h C4_forward_scan [of 0 ex_mixed ex_env ex_idle_A ex_mixed]
    C4_forward_scan [of 2 ex_mixed ex_env ex_idle_A ex_mixed]
  show ?thesis by simp
qed

text \<open>
  C5. After a save or drop of variant B that reports success, the row's Label_Flag is 1
  (in memory and in the store), the recomputed unlabeled list does not contain the row,
  and the position is 0, or the sentinel -1 when the list is empty, whatever it was before.
\<close>

theorem C5_saved_row_leaves_the_cursor:
  "Changes_saved \<in> set (messages (save_drop_B P e inp repo GT s i name)) \<longrightarrow>
     i < len (frame (save_drop_B P e inp repo GT s i name))
     \<and> (rows (frame (save_drop_B P e inp repo GT s i name)) ! i) ''Label_Flag'' = CNum 1
     \<and> (rows (stored (save_drop_B P e inp repo GT s i name)) ! i) ''Label_Flag'' = CNum 1
     \<and> (case session (save_drop_B P e inp repo GT s i name) of
          None \<Rightarrow> False
        | Some s' \<Rightarrow>
            i \<notin> set (unlabeled_indices s')
            \<and> unlabeled_indices s' = unlabeled (frame (save_drop_B P e inp repo GT s i name))
            \<and> current_pos s' = (if unlabeled_indices s' = [] then - 1 else 0))"
proof
  assume ok: "Changes_saved \<in> set (messages (save_drop_B P e inp repo GT s i name))"
  let ?L = "labels_B inp GT i"
  from save_drop_B_success [OF ok] have v: "verify_before_save GT i name"
    and r: "save_drop_B P e inp repo GT s i name =
           \<lparr>outcome = Rerun, messages = [Changes_saved], stored = csv_round_trip ?L,
            session = Some (snd (recompute P (reloaded ?L))),
            frame = coerce_label_flag P (reloaded ?L)\<rparr>"
    by simp_all
  from verify_in_range [OF v] have lt: "i < len GT" by simp
  from labels_B_facts [OF lt, of inp]
  have l: "len ?L = len GT" and flag: "(rows ?L ! i) ''Label_Flag'' = CNum 1"
    by (simp_all add: saved_row_flag)
  from lt l have lt': "i < len ?L" by simp
  have rflag: "(rows (reloaded ?L) ! i) ''Label_Flag'' = CNum 1"
    using reloaded_nth [OF lt'] flag by (simp add: reloaded_row_def)
  have cflag: "(rows (coerce_label_flag P (reloaded ?L)) ! i) ''Label_Flag'' = CNum 1"
    using lt' rflag by (simp add: coerce_row reloaded_len)
  have sflag: "(rows (csv_round_trip ?L) ! i) ''Label_Flag'' = CNum 1"
    using lt' flag by (simp add: csv_round_trip_row)
  have notin: "i \<notin> set (unlabeled_indices (snd (recompute P (reloaded ?L))))"
    using rflag by (simp add: recompute_snd)
  have ul: "unlabeled_indices (snd (recompute P (reloaded ?L)))
      = unlabeled (coerce_label_flag P (reloaded ?L))"
    by (simp add: recompute_def Let_def)
  from r lt' cflag sflag notin ul recompute_snd [of P "reloaded ?L"]
  show "i < len (frame (save_drop_B P e inp repo GT s i name))
     \<and> (rows (frame (save_drop_B P e inp repo GT s i name)) ! i) ''Label_Flag'' = CNum 1
     \<and> (rows (stored (save_drop_B P e inp repo GT s i name)) ! i) ''Label_Flag'' = CNum 1
     \<and> (case session (save_drop_B P e inp repo GT s i name) of
          None \<Rightarrow> False
        | Some s' \<Rightarrow>
            i \<notin> set (unlabeled_indices s')
            \<and> unlabeled_indices s' = unlabeled (frame (save_drop_B P e inp repo GT s i name))
            \<and> current_pos s' = (if unlabeled_indices s' = [] then - 1 else 0))"
    by (simp add: coerce_len reloaded_len)
qed

theorem C5_saved_row_leaves_the_cursor_witness:
  "Changes_saved \<in> set (messages
      (save_drop_B ex_parse ex_env ex_save_B ex_unlabeled ex_unlabeled ex_session 0 (CStr ''a.png'')))
   \<and> session (save_drop_B ex_parse ex_env ex_save_B ex_unlabeled ex_unlabeled ex_session 0 (CStr ''a.png''))
       = Some \<lparr>unlabeled_indices = [1, 2], current_pos = 0\<rparr>
   \<and> (rows (frame
        (save_drop_B ex_parse ex_env ex_save_B ex_unlabeled ex_unlabeled ex_session 0 (CStr ''a.png''))) ! 0)
        ''Label_Flag'' = CNum 1"
proof -
  have h: "Changes_saved \<in> set (messages
      (save_drop_B ex_parse ex_env ex_save_B ex_unlabeled ex_unlabeled ex_session 0 (CStr ''a.png'')))"
    by (simp add: ex_save_B_msgs)
  have s: "session (save_drop_B ex_parse ex_env ex_save_B ex_unlabeled ex_unlabeled ex_session 0 (CStr ''a.png''))
       = Some \<lparr>unlabeled_indices = [1, 2], current_pos = 0\<rparr>"
    by (simp add: ex_save_B_result ex_save_B_session)
  from h s
    C5_saved_row_leaves_the_cursor [of ex_parse ex_env ex_save_B ex_unlabeled ex_unlabeled
      ex_session 0 "CStr ''a.png''"]
  show ?thesis by simp
qed




text \<open>
  C7. A run in which only Previous is pressed while the cursor is at position 0, or only
  Next while it is at the last position, leaves the cursor, the store and the table as
  they were, in both variants.
\<close>

theorem C7_navigation_at_the_ends:
  "(previous_A inpA \<and> \<not> next_A inpA \<and> \<not> drop_checkbox inpA \<and> \<not> save_changes inpA
      \<and> skip_labeled GT i0 = 0
    \<longrightarrow> session (script_A e inpA file GT i0) = i0
        \<and> stored (script_A e inpA file GT i0) = file
        \<and> frame (script_A e inpA file GT i0) = GT)
   \<and> (next_A inpA' \<and> \<not> previous_A inpA' \<and> \<not> drop_checkbox inpA' \<and> \<not> save_changes inpA'
      \<and> ''Label_Flag'' \<in> set (columns GT) \<and> int (skip_labeled GT i0) = int (len GT) - 1
    \<longrightarrow> session (script_A e inpA' file GT i0) = skip_labeled GT i0
        \<and> stored (script_A e inpA' file GT i0) = file
        \<and> frame (script_A e inpA' file GT i0) = GT)
   \<and> (previous_B inpB \<and> \<not> next_B inpB \<and> \<not> reset inpB \<and> \<not> form_submit inpB \<and> \<not> drop_submit inpB
      \<and> current_pos s = 0
    \<longrightarrow> session (script_B P e inpB repo GT (Some s)) = Some s
        \<and> stored (script_B P e inpB repo GT (Some s)) = repo
        \<and> frame (script_B P e inpB repo GT (Some s)) = GT)
   \<and> (next_B inpB' \<and> \<not> previous_B inpB' \<and> \<not> reset inpB' \<and> \<not> form_submit inpB' \<and> \<not> drop_submit inpB'
      \<and> current_pos s = int (length (unlabeled_indices s)) - 1
    \<longrightarrow> session (script_B P e inpB' repo GT (Some s)) = Some s
        \<and> stored (script_B P e inpB' repo GT (Some s)) = repo
        \<and> frame (script_B P e inpB' repo GT (Some s)) = GT)"
proof (intro conjI impI)
  assume a: "previous_A inpA \<and> \<not> next_A inpA \<and> \<not> drop_checkbox inpA \<and> \<not> save_changes inpA
      \<and> skip_labeled GT i0 = 0"
  then have z: "i0 = 0" using skip_labeled_0 [of GT i0] by simp
  from a have n: "navigate_A inpA (len GT) (skip_labeled GT i0) = 0"
    by (simp add: navigate_A_def)
  from a z n script_A_no_button [of inpA e "file" GT i0]
  show "session (script_A e inpA file GT i0) = i0"
    "stored (script_A e inpA file GT i0) = file"
    "frame (script_A e inpA file GT i0) = GT"
    by auto
next
  assume a: "next_A inpA' \<and> \<not> previous_A inpA' \<and> \<not> drop_checkbox inpA' \<and> \<not> save_changes inpA'
      \<and> ''Label_Flag'' \<in> set (columns GT) \<and> int (skip_labeled GT i0) = int (len GT) - 1"
  then have n: "navigate_A inpA' (len GT) (skip_labeled GT i0) = skip_labeled GT i0"
    by (simp add: navigate_A_def)
  from a n script_A_no_button [of inpA' e "file" GT i0]
  show "session (script_A e inpA' file GT i0) = skip_labeled GT i0"
    "stored (script_A e inpA' file GT i0) = file"
    "frame (script_A e inpA' file GT i0) = GT"
    by auto
next
  assume a: "previous_B inpB \<and> \<not> next_B inpB \<and> \<not> reset inpB \<and> \<not> form_submit inpB \<and> \<not> drop_submit inpB
      \<and> current_pos s = 0"
  then have "snd (navigate_B inpB s) = s" by (simp add: navigate_B_def)
  with a script_B_no_button [of inpB P e repo GT s]
  show "session (script_B P e inpB repo GT (Some s)) = Some s"
    "stored (script_B P e inpB repo GT (Some s)) = repo"
    "frame (script_B P e inpB repo GT (Some s)) = GT"
    by auto
next
  assume a: "next_B inpB' \<and> \<not> previous_B inpB' \<and> \<not> reset inpB' \<and> \<not> form_submit inpB' \<and> \<not> drop_submit inpB'
      \<and> current_pos s = int (length (unlabeled_indices s)) - 1"
  then have "snd (navigate_B inpB' s) = s" by (simp add: navigate_B_def)
  with a script_B_no_button [of inpB' P e repo GT s]
  show "session (script_B P e inpB' repo GT (Some s)) = Some s"
    "stored (script_B P e inpB' repo GT (Some s)) = repo"
    "frame (script_B P e inpB' repo GT (Some s)) = GT"
    by auto
qed

theorem C7_navigation_at_the_ends_witness:
  "previous_A ex_previous_A \<and> skip_labeled ex_unlabeled 0 = 0
   \<and> session (script_A ex_env ex_previous_A ex_unlabeled ex_unlabeled 0) = 0
   \<and> next_A ex_next_A \<and> int (skip_labeled ex_unlabeled 2) = int (len ex_unlabeled) - 1
   \<and> session (script_A ex_env ex_next_A ex_unlabeled ex_unlabeled 2) = skip_labeled ex_unlabeled 2
   \<and> previous_B ex_previous_B \<and> current_pos ex_session = 0
   \<and> session (script_B ex_parse ex_env ex_previous_B ex_unlabeled ex_unlabeled (Some ex_session))
       = Some ex_session
   \<and> next_B ex_next_B
   \<and> current_pos ex_session_last = int (length (unlabeled_indices ex_session_last)) - 1
   \<and> session (script_B ex_parse ex_env ex_next_B ex_unlabeled ex_unlabeled (Some ex_session_last))
       = Some ex_session_last"
proof -
  have a: "previous_A ex_previous_A \<and> \<not> next_A ex_previous_A \<and> \<not> drop_checkbox ex_previous_A
      \<and> \<not> save_changes ex_previous_A \<and> skip_labeled ex_unlabeled 0 = 0"
    by (simp add: ex_previous_A_def ex_idle_A_def skip_labeled.simps ex_unlabeled_def ex_row_def
        row_of_def len_def)
  have b: "next_A ex_next_A \<and> \<not> previous_A ex_next_A \<and> \<not> drop_checkbox ex_next_A
      \<and> \<not> save_changes ex_next_A \<and> ''Label_Flag'' \<in> set (columns ex_unlabeled)
      \<and> int (skip_labeled ex_unlabeled 2) = int (len ex_unlabeled) - 1"
    by (simp add: ex_next_A_def ex_idle_A_def skip_labeled.simps ex_unlabeled_def ex_row_def
        row_of_def len_def)
  have c: "previous_B ex_previous_B \<and> \<not> next_B ex_previous_B \<and> \<not> reset ex_previous_B
      \<and> \<not> form_submit ex_previous_B \<and> \<not> drop_submit ex_previous_B \<and> current_pos ex_session = 0"
    by (simp add: ex_previous_B_def ex_idle_B_def ex_session_def)
  have d: "next_B ex_next_B \<and> \<not> previous_B ex_next_B \<and> \<not> reset ex_next_B
      \<and> \<not> form_submit ex_next_B \<and> \<not> drop_submit ex_next_B
      \<and> current_pos ex_session_last = int (length (unlabeled_indices ex_session_last)) - 1"
    by (simp add: ex_next_B_def ex_idle_B_def ex_session_last_def)
  note t1 = C7_navigation_at_the_ends [of ex_previous_A ex_unlabeled 0 ex_env ex_unlabeled
      ex_next_A ex_previous_B ex_session ex_parse ex_unlabeled ex_next_B]
  note t2 = C7_navigation_at_the_ends [of ex_previous_A ex_unlabeled 2 ex_env ex_unlabeled
      ex_next_A ex_previous_B ex_session_last ex_parse ex_unlabeled ex_next_B]
  from t1 a have r1: "session (script_A ex_env ex_previous_A ex_unlabeled ex_unlabeled 0) = 0"
    by blast
  from t2 b have r2: "session (script_A ex_env ex_next_A ex_unlabeled ex_unlabeled 2)
      = skip_labeled ex_unlabeled 2"
    by blast
  from t1 c have r3: "session (script_B ex_parse ex_env ex_previous_B ex_unlabeled ex_unlabeled
      (Some ex_session)) = Some ex_session"
    by blast
  from t2 d have r4: "session (script_B ex_parse ex_env ex_next_B ex_unlabeled ex_unlabeled
      (Some ex_session_last)) = Some ex_session_last"
    by blast
  from a b c d r1 r2 r3 r4 show ?thesis by blast
qed

text \<open>
  C8. In variant B, when the pre-save check fails, the save is aborted: nothing is written
  to the store, the session is left as it was, no field of the pending edit reaches the
  table, and the table is reloaded from the store before the rerun (a failed reload stops
  the run with the table untouched).
\<close>

theorem C8_mismatch_aborts_the_save:
  "\<not> verify_before_save GT i name \<longrightarrow>
     stored (save_drop_B P e inp repo GT s i name) = repo
     \<and> session (save_drop_B P e inp repo GT s i name) = Some s
     \<and> Data_mismatch \<in> set (messages (save_drop_B P e inp repo GT s i name))
     \<and> Changes_saved \<notin> set (messages (save_drop_B P e inp repo GT s i name))
     \<and> (case load_data (reload_ok e) repo of
          Some df \<Rightarrow>
            frame (save_drop_B P e inp repo GT s i name) = repo
            \<and> outcome (save_drop_B P e inp repo GT s i name) = Rerun
        | None \<Rightarrow>
            frame (save_drop_B P e inp repo GT s i name) = GT
            \<and> outcome (save_drop_B P e inp repo GT s i name) = Stopped)"
  by (auto simp add: save_drop_B_unfold load_data_def split: option.splits)

theorem C8_mismatch_aborts_the_save_witness:
  "\<not> verify_before_save ex_unlabeled 0 (CStr ''z.png'')
   \<and> load_data (reload_ok ex_env) ex_mixed = Some ex_mixed
   \<and> frame (save_drop_B ex_parse ex_env ex_save_B ex_mixed ex_unlabeled ex_session 0 (CStr ''z.png''))
       = ex_mixed
   \<and> stored (save_drop_B ex_parse ex_env ex_save_B ex_mixed ex_unlabeled ex_session 0 (CStr ''z.png''))
       = ex_mixed
   \<and> outcome (save_drop_B ex_parse ex_env ex_save_B ex_mixed ex_unlabeled ex_session 0 (CStr ''z.png''))
       = Rerun"
proof -
  have h: "\<not> verify_before_save ex_unlabeled 0 (CStr ''z.png'')"
    by (simp add: verify_before_save_def iloc_def len_def ex_defs)
  have l: "load_data (reload_ok ex_env) ex_mixed = Some ex_mixed"
    by (simp add: load_data_def required_columns_def ex_env_def ex_mixed_def)
  from h l
    C8_mismatch_aborts_the_save [of ex_unlabeled 0 "CStr ''z.png''" ex_parse ex_env ex_save_B
      ex_mixed ex_session]
  show ?thesis by simp
qed



text \<open>
  C10 at a failing input of variant A. Pressing Drop stores the value of the button, the
  boolean True, in the Drop field: it is neither the string "True" nor the string "False".
  The Save branch of the same script writes the string "False" and variant B's Drop writes
  the string "True".
\<close>

theorem C10_drop_writes_a_boolean_in_A:
  "messages (script_A ex_env ex_drop_A ex_unlabeled ex_unlabeled 0) = [Changes_saved]
   \<and> (rows (frame (script_A ex_env ex_drop_A ex_unlabeled ex_unlabeled 0)) ! 0) ''Drop'' = CBool True
   \<and> (rows (frame (script_A ex_env ex_drop_A ex_unlabeled ex_unlabeled 0)) ! 0) ''Drop'' \<noteq> CStr ''True''
   \<and> (rows (frame (script_A ex_env ex_drop_A ex_unlabeled ex_unlabeled 0)) ! 0) ''Drop'' \<noteq> CStr ''False''"
proof -
  have l: "0 < len ex_unlabeled" by (simp add: len_def ex_unlabeled_def)
  then have l1: "0 < len (at_set ex_unlabeled 0 ''Label_Flag'' (CNum 1))"
    by (simp add: at_set_len)
  from at_set_row [OF l1, of "''Drop''" "CBool True"]
  have "(rows (at_set (at_set ex_unlabeled 0 ''Label_Flag'' (CNum 1)) 0 ''Drop'' (CBool True)) ! 0)
      ''Drop'' = CBool True"
    by simp
  then show ?thesis by (simp add: ex_script_A_drop)
qed

end
